theory Spec2Isabelle
  imports Main "HOL-Library.AList" "HOL-Library.Multiset" "HOL-Library.Char_ord"
    "HOL-Library.List_Lexorder"
begin

section \<open>Values and errors of the JavaScript runtime\<close>

text \<open>
  The values that flow through \<^verbatim>\<open>src/App.jsx\<close> are those that \<^verbatim>\<open>JSON.parse\<close>
  produces, together with \<^verbatim>\<open>undefined\<close> for a property that is not there. A JSON value
  is a \<open>json\<close>; a JavaScript value that may be \<^verbatim>\<open>undefined\<close> is a \<open>json option\<close>,
  with \<open>None\<close> for \<^verbatim>\<open>undefined\<close>. A number is an integer, as the totals and gains of
  the data model are; fractions and the non-finite values of the runtime's doubles are
  outside the model, and an addition rounds as the runtime's does (\<open>js_add\<close> below).
  The properties of an object are kept in enumeration order, and a key occurs once.
\<close>

datatype json =
    Null
  | Bool bool
  | Num int
  | Str string
  | Arr "json list"
  | Obj "(string \<times> json) list"

text \<open>
  An exception is a value of type \<open>error\<close>, and a computation that may throw has a
  result of type \<open>error + 'a\<close> with \<open>Inl\<close> for the exception. A
  \<^verbatim>\<open>try { ... } catch (e) { ... }\<close> is a case distinction on that result.
\<close>

datatype error =
    NetworkError                 \<comment> \<open>\<^verbatim>\<open>fetch\<close> rejected\<close>
  | RequestFailed nat            \<comment> \<open>\<^verbatim>\<open>API request failed with status n\<close>\<close>
  | SyntaxError                  \<comment> \<open>\<^verbatim>\<open>JSON.parse\<close> or \<^verbatim>\<open>response.json()\<close> on text that is not JSON\<close>
  | TypeError                    \<comment> \<open>a property read on \<^verbatim>\<open>null\<close> or \<^verbatim>\<open>undefined\<close>\<close>
  | InvalidAiResponse            \<comment> \<open>the \<^verbatim>\<open>Error\<close> thrown at line 98\<close>
  | InvalidFileFormat            \<comment> \<open>the \<^verbatim>\<open>Error\<close> thrown at line 572\<close>
  | StorageError                 \<comment> \<open>\<^verbatim>\<open>localStorage\<close> is not accessible\<close>
  | WriteError bool              \<comment> \<open>\<^verbatim>\<open>Filesystem.writeFile\<close> failed; the flag says whether the
                                     message includes \<^verbatim>\<open>permission\<close>\<close>

text \<open>Truthiness, as \<^verbatim>\<open>if (v)\<close>, \<^verbatim>\<open>a && b\<close> and \<^verbatim>\<open>a || b\<close> test it.\<close>

fun truthy :: "json \<Rightarrow> bool" where
  "truthy Null = False"
| "truthy (Bool b) = b"
| "truthy (Num n) = (n \<noteq> 0)"
| "truthy (Str s) = (s \<noteq> [])"
| "truthy (Arr xs) = True"
| "truthy (Obj kvs) = True"

definition truthy_opt :: "json option \<Rightarrow> bool" where
  "truthy_opt v = (case v of None \<Rightarrow> False | Some j \<Rightarrow> truthy j)"

text \<open>
  \<^verbatim>\<open>v.name\<close> for one of the names the program reads (\<^verbatim>\<open>candidates\<close>, \<^verbatim>\<open>content\<close>,
  \<^verbatim>\<open>parts\<close>, \<^verbatim>\<open>text\<close>, \<^verbatim>\<open>allEntries\<close>, \<^verbatim>\<open>playerStats\<close>): none of them is a
  built-in property of a string, an array, a number or a boolean, so only an object can
  hold it. Reading a property of \<^verbatim>\<open>null\<close> or \<^verbatim>\<open>undefined\<close> throws.
\<close>

fun get_prop :: "json option \<Rightarrow> string \<Rightarrow> error + json option" where
  "get_prop None k = Inl TypeError"
| "get_prop (Some Null) k = Inl TypeError"
| "get_prop (Some (Obj kvs)) k = Inr (map_of kvs k)"
| "get_prop (Some v) k = Inr None"

text \<open>
  \<^verbatim>\<open>v[0]\<close>: the first element of an array, the first character of a string, the
  property \<^verbatim>\<open>"0"\<close> of an object.
\<close>

fun get_first :: "json option \<Rightarrow> error + json option" where
  "get_first None = Inl TypeError"
| "get_first (Some Null) = Inl TypeError"
| "get_first (Some (Arr xs)) = Inr (case xs of [] \<Rightarrow> None | x # _ \<Rightarrow> Some x)"
| "get_first (Some (Str s)) = Inr (case s of [] \<Rightarrow> None | c # _ \<Rightarrow> Some (Str [c]))"
| "get_first (Some (Obj kvs)) = Inr (map_of kvs ''0'')"
| "get_first (Some v) = Inr None"

text \<open>
  Optional chaining: \<^verbatim>\<open>v?.name\<close> and \<^verbatim>\<open>v?.[0]\<close> are \<^verbatim>\<open>undefined\<close> when \<open>v\<close> is
  \<^verbatim>\<open>null\<close> or \<^verbatim>\<open>undefined\<close>, and the plain read otherwise; they never throw.
\<close>

definition nullish :: "json option \<Rightarrow> bool" where
  "nullish v = (v = None \<or> v = Some Null)"

definition opt_prop :: "json option \<Rightarrow> string \<Rightarrow> json option" where
  "opt_prop v k = (if nullish v then None
                   else (case get_prop v k of Inl e \<Rightarrow> None | Inr r \<Rightarrow> r))"

definition opt_first :: "json option \<Rightarrow> json option" where
  "opt_first v = (if nullish v then None
                  else (case get_first v of Inl e \<Rightarrow> None | Inr r \<Rightarrow> r))"

section \<open>The request with exponential backoff\<close>

text \<open>
  What one call of \<^verbatim>\<open>fetch\<close> gives: a rejection, or a response with its \<^verbatim>\<open>ok\<close> flag, its
  \<^verbatim>\<open>status\<close> and what \<^verbatim>\<open>response.json()\<close> resolves to (\<open>None\<close> when the body is not
  JSON and the promise rejects). The endpoint is the function from the number of calls
  made so far to the outcome of the next one.
\<close>

datatype fetch_outcome =
    Rejected
  | Response (ok: bool) (status: nat) (body: "json option")

type_synonym endpoint = "nat \<Rightarrow> fetch_outcome"

text \<open>The effects of the request loop: the calls made and the delays waited, oldest first.\<close>

record net =
  calls :: nat
  waits :: "nat list"

definition net0 :: net where
  "net0 = \<lparr>calls = 0, waits = []\<rparr>"

text \<open>
  \<^verbatim>\<open>fetchWithBackoff(url, options, retries = 5, delay = 1000)\<close>, lines 31 to 47. The
  \<^verbatim>\<open>catch\<close> of line 43 logs and rethrows, so it changes no result.
\<close>

fun fetchWithBackoff :: "endpoint \<Rightarrow> nat \<Rightarrow> nat \<Rightarrow> net \<Rightarrow> (error + json) \<times> net" where
  "fetchWithBackoff ep retries delay s =
     (let s1 = s\<lparr>calls := calls s + 1\<rparr> in
      case ep (calls s) of
        Rejected \<Rightarrow> (Inl NetworkError, s1)
      | Response okay st bd \<Rightarrow>
          if \<not> okay then
            (if st = 429 \<and> retries > 0
             then fetchWithBackoff ep (retries - 1) (delay * 2) (s1\<lparr>waits := waits s1 @ [delay]\<rparr>)
             else (Inl (RequestFailed st), s1))
          else (case bd of None \<Rightarrow> (Inl SyntaxError, s1) | Some j \<Rightarrow> (Inr j, s1)))"

definition default_retries :: nat where "default_retries = 5"
definition default_delay :: nat where "default_delay = 1000"

text \<open>The delays of \<open>k\<close> retries in a row that start from the delay \<open>d\<close>.\<close>

definition backoff :: "nat \<Rightarrow> nat \<Rightarrow> nat list" where
  "backoff d k = map (\<lambda>i. d * 2 ^ i) [0..<k]"

section \<open>The AI gain estimator\<close>

text \<open>The object literal of line 103.\<close>

definition zero_gains :: json where
  "zero_gains = Obj [(''diligence'', Num 0), (''knowledge'', Num 0), (''courage'', Num 0),
                     (''understanding'', Num 0), (''expression'', Num 0)]"

text \<open>
  Lines 92 to 99: \<^verbatim>\<open>const candidate = result.candidates?.[0]\<close>, then the test
  \<^verbatim>\<open>candidate && candidate.content?.parts?.[0]?.text\<close>, then the plain reads of
  \<^verbatim>\<open>candidate.content.parts[0].text\<close>. The first read, \<^verbatim>\<open>result.candidates\<close>, is not
  optional and throws when the response body is \<^verbatim>\<open>null\<close>.
\<close>

definition then_do :: "error + 'a \<Rightarrow> ('a \<Rightarrow> error + 'b) \<Rightarrow> error + 'b" where
  "then_do r f = (case r of Inl e \<Rightarrow> Inl e | Inr v \<Rightarrow> f v)"

definition response_text :: "json \<Rightarrow> error + json option" where
  "response_text result =
     then_do (get_prop (Some result) ''candidates'') (\<lambda>cs.
       let candidate = opt_first cs in
       if \<not> truthy_opt candidate then Inl InvalidAiResponse
       else then_do (get_prop candidate ''content'') (\<lambda>content.
         if \<not> truthy_opt (opt_prop (opt_first (opt_prop content ''parts'')) ''text'')
         then Inl InvalidAiResponse
         else then_do (get_prop content ''parts'') (\<lambda>parts.
                then_do (get_first parts) (\<lambda>part. get_prop part ''text''))))"

text \<open>
  The runtime's \<^verbatim>\<open>JSON.parse\<close> is a parameter: it takes the value it is given
  (a string, or a value it first converts to one) and gives the parsed value, or \<open>None\<close>
  when it throws a \<^verbatim>\<open>SyntaxError\<close>. \<^verbatim>\<open>undefined\<close> converts to text that is not JSON.
\<close>

type_synonym parser = "json \<Rightarrow> json option"

definition parse_value :: "parser \<Rightarrow> json option \<Rightarrow> error + json" where
  "parse_value JSON_parse v =
     (case v of None \<Rightarrow> Inl SyntaxError
      | Some t \<Rightarrow> (case JSON_parse t of None \<Rightarrow> Inl SyntaxError | Some j \<Rightarrow> Inr j))"

text \<open>
  The request is built from \<open>activity\<close> and \<open>feeling\<close> alone, so the service is the
  function from the two texts to the endpoint's answers. \<open>callAiModel_try\<close> is the body
  of the \<^verbatim>\<open>try\<close> of lines 84 to 99, \<open>callAiModel\<close> the whole function with its
  \<^verbatim>\<open>catch\<close> of lines 100 to 104.
\<close>

type_synonym service = "string \<Rightarrow> string \<Rightarrow> endpoint"

definition callAiModel_try :: "parser \<Rightarrow> service \<Rightarrow> string \<Rightarrow> string \<Rightarrow> error + json" where
  "callAiModel_try JSON_parse srv activity feeling =
     then_do (fst (fetchWithBackoff (srv activity feeling) default_retries default_delay net0))
       (\<lambda>result. then_do (response_text result) (parse_value JSON_parse))"

definition callAiModel :: "parser \<Rightarrow> service \<Rightarrow> string \<Rightarrow> string \<Rightarrow> error + json" where
  "callAiModel JSON_parse srv activity feeling =
     (case callAiModel_try JSON_parse srv activity feeling of
        Inl e \<Rightarrow> Inr zero_gains
      | Inr gains \<Rightarrow> Inr gains)"

section \<open>Entries and the add-activity form\<close>

text \<open>
  An entry is the object literal of lines 262 to 268. Its \<^verbatim>\<open>gains\<close> is whatever the
  estimator returned when the form builds it, and an object of numbers when the
  aggregator reads it, so the record is polymorphic in that field.
\<close>

record 'g entry =
  id_entry :: string
  date :: string
  activity :: string
  feeling :: string
  gains :: 'g

text \<open>
  \<^verbatim>\<open>handleSubmit\<close>, lines 249 to 281. The runtime gives \<^verbatim>\<open>trim\<close>, the two readings
  of the clock as ISO texts and the text of \<^verbatim>\<open>Math.random()\<close>; \<open>onSave\<close> is the
  component's property, a state update that cannot throw.
\<close>

datatype submit_outcome = EmptyField | Submitted | AiFailed

definition iso_day :: "string \<Rightarrow> string" where
  "iso_day t = takeWhile (\<lambda>c. c \<noteq> CHR ''T'') t"

definition handleSubmit ::
  "(string \<Rightarrow> string) \<Rightarrow> parser \<Rightarrow> service \<Rightarrow> (json entry \<Rightarrow> 's \<Rightarrow> 's) \<Rightarrow>
   string \<Rightarrow> string \<Rightarrow> string \<Rightarrow> string \<Rightarrow> string \<Rightarrow> 's \<Rightarrow> submit_outcome \<times> 's" where
  "handleSubmit trim JSON_parse srv onSave now1 rnd now2 act feel s =
     (if trim act = [] \<or> trim feel = [] then (EmptyField, s)
      else (case callAiModel JSON_parse srv act feel of
              Inl e \<Rightarrow> (AiFailed, s)
            | Inr g \<Rightarrow>
                (Submitted,
                 onSave \<lparr>id_entry = now1 @ rnd, date = iso_day now2, activity = act,
                         feeling = feel, gains = g\<rparr> s)))"

section \<open>The persistent value cell\<close>

text \<open>
  The initializer of \<^verbatim>\<open>useLocalStorage\<close>, lines 117 to 134. \<open>getItem\<close> is
  \<^verbatim>\<open>localStorage.getItem\<close>: it throws when the store cannot be reached and gives
  \<^verbatim>\<open>null\<close> (\<open>None\<close>) for a key that is not there. The result is a value or an
  exception, as for every function of the program.
\<close>

type_synonym storage = "string \<Rightarrow> error + string option"

definition useLocalStorage_init :: "parser \<Rightarrow> storage \<Rightarrow> string \<Rightarrow> json \<Rightarrow> error + json" where
  "useLocalStorage_init JSON_parse getItem key defaultValue =
     (let storedValue = (case getItem key of Inl e \<Rightarrow> None | Inr v \<Rightarrow> v) in
      case storedValue of
        None \<Rightarrow> Inr defaultValue
      | Some text \<Rightarrow>
          if text \<noteq> [] then
            (case JSON_parse (Str text) of
               Some v \<Rightarrow> Inr v
             | None \<Rightarrow> Inr defaultValue)
          else Inr defaultValue)"

section \<open>The entry and stat aggregator\<close>

text \<open>
  The runtime's numbers are IEEE doubles. On integers their addition is the exact sum
  rounded to the nearest double, a tie going to the even significand: a double has 53
  significant bits, so an integer of more bits is rounded to a multiple of the power
  of two that its bits beyond 53 make up. Up to the magnitude \<open>2 ^ 53\<close> every integer is a
  double and the sum is exact. A sum whose magnitude reaches \<open>2 ^ 1024\<close> is infinite in
  the runtime and outside the model.
\<close>

function bit_length :: "int \<Rightarrow> nat" where
  "bit_length n = (if n \<le> 0 then 0 else Suc (bit_length (n div 2)))"
  by pat_completeness auto
termination
  by (relation "measure nat") auto

definition to_double :: "int \<Rightarrow> int" where
  "to_double x =
     (let n = \<bar>x\<bar>; u = 2 ^ (bit_length n - 53); q = n div u; r = n mod u
      in sgn x * ((if u < 2 * r \<or> (u = 2 * r \<and> odd q) then q + 1 else q) * u))"

definition js_add :: "int \<Rightarrow> int \<Rightarrow> int" where
  "js_add a b = to_double (a + b)"

text \<open>The integers that are doubles, and the range in which every integer is one.\<close>

definition is_double :: "int \<Rightarrow> bool" where
  "is_double t = (2 ^ (bit_length \<bar>t\<bar> - 53) dvd t)"

definition exact :: "int \<Rightarrow> bool" where
  "exact x = (\<bar>x\<bar> \<le> 2 ^ 53)"

text \<open>
  An object whose values are numbers, as \<^verbatim>\<open>playerStats\<close> and the \<^verbatim>\<open>gains\<close> of a stored
  entry: the properties in enumeration order, each key once. The runtime enumerates
  the keys that are array indices first, in ascending order, and then the other keys
  in the order of their creation.
\<close>

type_synonym stats = "(string \<times> int) list"

text \<open>The keys of \<^verbatim>\<open>STAT_NAMES\<close>, lines 16 to 22, and the initial totals of lines 648 to 654.\<close>

definition stat_keys :: "string list" where
  "stat_keys = [''diligence'', ''knowledge'', ''courage'', ''understanding'', ''expression'']"

definition initial_stats :: stats where
  "initial_stats = [(''diligence'', 0), (''knowledge'', 0), (''courage'', 0),
                    (''understanding'', 0), (''expression'', 0)]"

text \<open>\<^verbatim>\<open>newStats[key] || 0\<close>: the value of the key, or 0 when it is missing or falsy.\<close>

definition or_zero :: "int option \<Rightarrow> int" where
  "or_zero v = (case v of None \<Rightarrow> 0 | Some n \<Rightarrow> if n \<noteq> 0 then n else 0)"

text \<open>
  A key is an array index when it is the decimal text, without a leading zero, of an
  integer from 0 to \<open>2 ^ 32 - 2\<close>. A new key that is an array index goes before the first
  key that is no smaller index; any other new key goes to the end.
\<close>

definition digit_value :: "char \<Rightarrow> int" where
  "digit_value c = of_char c - 48"

definition index_of :: "string \<Rightarrow> int option" where
  "index_of k =
     (let n = foldl (\<lambda>a c. 10 * a + digit_value c) 0 k in
      if k \<noteq> [] \<and> list_all (\<lambda>c. c \<in> set ''0123456789'') k
         \<and> (k = ''0'' \<or> hd k \<noteq> CHR ''0'') \<and> n \<le> 4294967294
      then Some n else None)"

definition sorts_before :: "int \<Rightarrow> string \<times> int \<Rightarrow> bool" where
  "sorts_before i p = (case index_of (fst p) of Some j \<Rightarrow> j < i | None \<Rightarrow> False)"

definition put_new :: "string \<Rightarrow> int \<Rightarrow> stats \<Rightarrow> stats" where
  "put_new k v s =
     (case index_of k of
        None \<Rightarrow> s @ [(k, v)]
      | Some i \<Rightarrow> takeWhile (sorts_before i) s @ [(k, v)] @ dropWhile (sorts_before i) s)"

text \<open>
  One round of the loop of lines 662 to 664,
  \<^verbatim>\<open>newStats[key] = (newStats[key] || 0) + newEntry.gains[key]\<close>. The assignment
  replaces the value of a key that is there and creates a key that is not. The key
  \<^verbatim>\<open>__proto__\<close>, when the object does not hold it, is not created: the read gives the
  prototype, the sum is a text, and the assignment of a text to the prototype is
  dropped. A key that names another property of \<^verbatim>\<open>Object.prototype\<close> (\<^verbatim>\<open>constructor\<close>,
  \<^verbatim>\<open>toString\<close> and the like) and is not in the object gets a text for its value: such
  keys are outside the objects of numbers modelled here.
\<close>

definition add_gain :: "string \<times> int \<Rightarrow> stats \<Rightarrow> stats" where
  "add_gain kg newStats =
     (let key = fst kg; v = js_add (or_zero (map_of newStats key)) (snd kg) in
      if key \<in> set (map fst newStats) then AList.update key v newStats
      else if key = ''__proto__'' then newStats
      else put_new key v newStats)"

text \<open>
  \<^verbatim>\<open>handleSaveEntry\<close>, lines 657 to 667, on the pair of the two state cells:
  \<^verbatim>\<open>[...prev, newEntry]\<close> for the entries, and the loop over the keys of
  \<^verbatim>\<open>newEntry.gains\<close> on a copy of the totals.
\<close>

definition handleSaveEntry ::
  "stats entry \<Rightarrow> stats entry list \<times> stats \<Rightarrow> stats entry list \<times> stats" where
  "handleSaveEntry newEntry st =
     (fst st @ [newEntry], fold add_gain (gains newEntry) (snd st))"

text \<open>The total of a key, 0 when the key is missing.\<close>

definition total :: "stats \<Rightarrow> string \<Rightarrow> int" where
  "total s k = (case map_of s k of None \<Rightarrow> 0 | Some n \<Rightarrow> n)"

text \<open>
  The data model's objects: an \<open>AttributeSet\<close> or a \<open>GainDelta\<close> has exactly the five
  keys, and each value of a \<open>GainDelta\<close> is an integer from 0 to 5.
\<close>

definition five_keys :: "stats \<Rightarrow> bool" where
  "five_keys s = (distinct (map fst s) \<and> set (map fst s) = set stat_keys)"

definition gain_delta :: "stats \<Rightarrow> bool" where
  "gain_delta g = (five_keys g \<and> list_all (\<lambda>kv. 0 \<le> snd kv \<and> snd kv \<le> 5) g)"

text \<open>
  The state that saving the entries \<open>es\<close>, oldest first, reaches from the first run's
  state: no entry and the all-zero totals.
\<close>

definition saved :: "stats entry list \<Rightarrow> stats entry list \<times> stats" where
  "saved es = fold handleSaveEntry es ([], initial_stats)"

section \<open>The calendar indexer\<close>

text \<open>
  \<^verbatim>\<open>Array.prototype.sort\<close> with a comparison function: a stable sort, where the element
  \<open>a\<close> stays before \<open>b\<close> unless the comparison says \<open>a\<close> is greater. For a comparison
  that is not consistent the language leaves the order to the engine; the insertion
  sort here is then one of the permitted results.
\<close>

fun insort_cmp :: "('a \<Rightarrow> 'a \<Rightarrow> int) \<Rightarrow> 'a \<Rightarrow> 'a list \<Rightarrow> 'a list" where
  "insort_cmp cmp x [] = [x]"
| "insort_cmp cmp x (y # ys) =
     (if cmp x y \<le> 0 then x # y # ys else y # insort_cmp cmp x ys)"

definition sort_cmp :: "('a \<Rightarrow> 'a \<Rightarrow> int) \<Rightarrow> 'a list \<Rightarrow> 'a list" where
  "sort_cmp cmp xs = foldr (insort_cmp cmp) xs []"

text \<open>
  The comparison of line 389, \<^verbatim>\<open>new Date(b.id) - new Date(a.id)\<close>. The runtime's reading
  of a text as a date is a parameter: the time value in milliseconds, or \<open>None\<close> for an
  invalid date, whose time value is \<^verbatim>\<open>NaN\<close>. A difference with \<^verbatim>\<open>NaN\<close> is \<^verbatim>\<open>NaN\<close>, which
  the sort takes as 0.
\<close>

type_synonym date_reader = "string \<Rightarrow> int option"

definition by_id_date :: "date_reader \<Rightarrow> 'g entry \<Rightarrow> 'g entry \<Rightarrow> int" where
  "by_id_date Date_time a b =
     (case (Date_time (id_entry b), Date_time (id_entry a)) of
        (Some tb, Some ta) \<Rightarrow> tb - ta
      | _ \<Rightarrow> 0)"

text \<open>\<^verbatim>\<open>selectedDateEntries\<close>, lines 386 to 390: the spec's \<open>entriesOn\<close>.\<close>

definition selectedDateEntries :: "date_reader \<Rightarrow> 'g entry list \<Rightarrow> string \<Rightarrow> 'g entry list" where
  "selectedDateEntries Date_time allEntries selectedDate =
     sort_cmp (by_id_date Date_time) (filter (\<lambda>entry. date entry = selectedDate) allEntries)"

text \<open>
  The time value of an entry's id under a reading; 0 stands for an id that is no date, and
  is used only where every id is one.
\<close>

definition entry_time :: "date_reader \<Rightarrow> 'g entry \<Rightarrow> int" where
  "entry_time Date_time e = (case Date_time (id_entry e) of Some t \<Rightarrow> t | None \<Rightarrow> 0)"

section \<open>The export and import codec\<close>

text \<open>
  The two state cells as the settings screen sees them: whatever an import or the store
  put there. \<^verbatim>\<open>JSON.stringify(data, null, 2)\<close> is a parameter, like \<^verbatim>\<open>JSON.parse\<close>.
\<close>

record app_data =
  allEntries :: json
  playerStats :: json

type_synonym printer = "json \<Rightarrow> string"

datatype message =
    ExportDone string            \<comment> \<open>line 546, with the file name\<close>
  | ExportDenied                 \<comment> \<open>line 552\<close>
  | ExportFailed                 \<comment> \<open>line 550\<close>
  | ImportDone                   \<comment> \<open>line 570\<close>
  | ImportFailed error           \<comment> \<open>line 576, with the exception caught\<close>
  | ReadFailed                   \<comment> \<open>line 580\<close>

definition is_failure :: "message \<Rightarrow> bool" where
  "is_failure m = (case m of ExportDone f \<Rightarrow> False | ImportDone \<Rightarrow> False | _ \<Rightarrow> True)"

text \<open>The document of lines 527 to 531 and its text, line 532.\<close>

definition export_document :: "string \<Rightarrow> app_data \<Rightarrow> json" where
  "export_document now st =
     Obj [(''allEntries'', allEntries st), (''playerStats'', playerStats st),
          (''exportDate'', Str now)]"

definition export_text :: "printer \<Rightarrow> string \<Rightarrow> app_data \<Rightarrow> string" where
  "export_text JSON_stringify now st = JSON_stringify (export_document now st)"

definition export_name :: "string \<Rightarrow> string" where
  "export_name now = ''persona_data_'' @ iso_day now @ ''.json''"

text \<open>
  \<^verbatim>\<open>handleExport\<close>, lines 524 to 556. \<open>writeFile\<close> is \<^verbatim>\<open>Filesystem.writeFile\<close> on a
  file system \<open>'fs\<close>: it gives the file system with the file written, or throws. The
  result is the message shown and the file system.
\<close>

definition handleExport ::
  "printer \<Rightarrow> (string \<Rightarrow> string \<Rightarrow> 'fs \<Rightarrow> error + 'fs) \<Rightarrow> string \<Rightarrow> string \<Rightarrow>
   app_data \<Rightarrow> 'fs \<Rightarrow> message \<times> 'fs" where
  "handleExport JSON_stringify writeFile now1 now2 st fs =
     (let jsonString = export_text JSON_stringify now1 st;
          fileName = export_name now2
      in case writeFile fileName jsonString fs of
           Inr fs' \<Rightarrow> (ExportDone fileName, fs')
         | Inl e \<Rightarrow> (if e = WriteError True then ExportDenied else ExportFailed, fs))"

text \<open>
  The \<^verbatim>\<open>onload\<close> handler of \<^verbatim>\<open>handleImport\<close>, lines 564 to 578, on the text read from
  the file: the new state and the message shown.
\<close>

definition import_text :: "parser \<Rightarrow> string \<Rightarrow> app_data \<Rightarrow> app_data \<times> message" where
  "import_text JSON_parse text st =
     (case JSON_parse (Str text) of
        None \<Rightarrow> (st, ImportFailed SyntaxError)
      | Some data \<Rightarrow>
          (case get_prop (Some data) ''allEntries'' of
             Inl e \<Rightarrow> (st, ImportFailed e)
           | Inr None \<Rightarrow> (st, ImportFailed InvalidFileFormat)
           | Inr (Some es) \<Rightarrow>
               if \<not> truthy es then (st, ImportFailed InvalidFileFormat)
               else (case get_prop (Some data) ''playerStats'' of
                       Inl e \<Rightarrow> (st, ImportFailed e)
                     | Inr None \<Rightarrow> (st, ImportFailed InvalidFileFormat)
                     | Inr (Some ps) \<Rightarrow>
                         if \<not> truthy ps then (st, ImportFailed InvalidFileFormat)
                         else (st\<lparr>allEntries := es, playerStats := ps\<rparr>, ImportDone))))"

text \<open>
  \<^verbatim>\<open>handleImport\<close>, lines 558 to 586: no file chosen, a file that cannot be read, or
  a file with its text. The message is \<open>None\<close> after \<^verbatim>\<open>setMessage(null)\<close>.
\<close>

datatype chosen_file = NoFile | Unreadable | Readable string

definition handleImport :: "parser \<Rightarrow> chosen_file \<Rightarrow> app_data \<Rightarrow> app_data \<times> message option" where
  "handleImport JSON_parse file st =
     (case file of
        NoFile \<Rightarrow> (st, None)
      | Unreadable \<Rightarrow> (st, Some ReadFailed)
      | Readable text \<Rightarrow> (let r = import_text JSON_parse text st in (fst r, Some (snd r))))"

text \<open>The presence of a key in a parsed document, and the shape of the data model's state.\<close>

definition has_key :: "json \<Rightarrow> string \<Rightarrow> bool" where
  "has_key data k = (case data of Obj kvs \<Rightarrow> k \<in> set (map fst kvs) | _ \<Rightarrow> False)"

definition shape_valid :: "app_data \<Rightarrow> bool" where
  "shape_valid st =
     ((case allEntries st of Arr es \<Rightarrow> True | _ \<Rightarrow> False) \<and>
      (case playerStats st of Obj kvs \<Rightarrow> True | _ \<Rightarrow> False))"

text \<open>
  The aggregator's state as the settings screen holds it: the entries as an array of
  objects, the totals as an object of numbers.
\<close>

definition stats_json :: "stats \<Rightarrow> json" where
  "stats_json s = Obj (map (\<lambda>kv. (fst kv, Num (snd kv))) s)"

definition entry_json :: "stats entry \<Rightarrow> json" where
  "entry_json e =
     Obj [(''id'', Str (id_entry e)), (''date'', Str (date e)), (''activity'', Str (activity e)),
          (''feeling'', Str (feeling e)), (''gains'', stats_json (gains e))]"

definition state_json :: "stats entry list \<times> stats \<Rightarrow> app_data" where
  "state_json st = \<lparr>allEntries = Arr (map entry_json (fst st)), playerStats = stats_json (snd st)\<rparr>"

section \<open>Concrete inputs\<close>

text \<open>Endpoints that limit the rate on every call, on the first five, on the first two.\<close>

definition always_429 :: endpoint where
  "always_429 n = Response False 429 None"

definition five_429_then_ok :: endpoint where
  "five_429_then_ok n = (if n < 5 then Response False 429 None else Response True 200 (Some Null))"

definition two_429_then_ok :: endpoint where
  "two_429_then_ok n = (if n < 2 then Response False 429 None else Response True 200 (Some Null))"

text \<open>An endpoint that answers every call with the status 500.\<close>

definition always_500 :: endpoint where
  "always_500 n = Response False 500 None"

text \<open>
  A parser given by a table: the texts of an example with the values the runtime parses
  them to. Every text of the examples that is not in the table is not JSON.
\<close>

definition table_parse :: "(string \<times> json) list \<Rightarrow> parser" where
  "table_parse tab v = (case v of Str t \<Rightarrow> map_of tab t | _ \<Rightarrow> None)"

definition one_number :: "(string \<times> json) list" where
  "one_number = [(''5'', Num 5)]"

text \<open>A response body with the text \<open>t\<close> where the estimator looks for it.\<close>

definition ai_reply :: "json \<Rightarrow> json" where
  "ai_reply t =
     Obj [(''candidates'', Arr [Obj [(''content'', Obj [(''parts'', Arr [Obj [(''text'', t)]])])]])]"

text \<open>Services: one that answers 500 to every request, one that answers with a body.\<close>

definition srv_500 :: service where
  "srv_500 a f = always_500"

definition srv_reply :: "json \<Rightarrow> service" where
  "srv_reply j a f n = Response True 200 (Some j)"

text \<open>A \<^verbatim>\<open>trim\<close> for texts whose only white space is the space.\<close>

definition trim_spaces :: "string \<Rightarrow> string" where
  "trim_spaces t = rev (dropWhile (\<lambda>c. c = CHR '' '') (rev (dropWhile (\<lambda>c. c = CHR '' '') t)))"

text \<open>An \<^verbatim>\<open>onSave\<close> that appends the entry to a list.\<close>

definition collect :: "json entry \<Rightarrow> json entry list \<Rightarrow> json entry list" where
  "collect e es = es @ [e]"

text \<open>A store that holds the texts of a table, and a store that cannot be reached.\<close>

definition store_of :: "(string \<times> string) list \<Rightarrow> storage" where
  "store_of tab k = Inr (map_of tab k)"

definition no_store :: storage where
  "no_store k = Inl StorageError"

text \<open>The entry of the spec's example, and a second entry of the same day.\<close>

definition book_entry :: "stats entry" where
  "book_entry = \<lparr>id_entry = ''2025-01-02T10:00:00.000Z0.25'', date = ''2025-01-02'',
     activity = ''read a book'', feeling = ''learned a lot'',
     gains = [(''diligence'', 1), (''knowledge'', 4), (''courage'', 0),
              (''understanding'', 0), (''expression'', 0)]\<rparr>"

definition talk_entry :: "stats entry" where
  "talk_entry = \<lparr>id_entry = ''2025-01-02T18:30:00.000Z0.75'', date = ''2025-01-02'',
     activity = ''gave a talk'', feeling = ''nervous but proud'',
     gains = [(''diligence'', 2), (''knowledge'', 1), (''courage'', 5),
              (''understanding'', 0), (''expression'', 3)]\<rparr>"

text \<open>
  Entries whose gains are not of the data model: a negative value, and a key that is not
  one of the five.
\<close>

definition slip_entry :: "stats entry" where
  "slip_entry = talk_entry\<lparr>gains := [(''diligence'', 0), (''knowledge'', - 1), (''courage'', 0),
                                        (''understanding'', 0), (''expression'', 0)]\<rparr>"

definition luck_entry :: "stats entry" where
  "luck_entry = talk_entry\<lparr>gains := [(''luck'', 1)]\<rparr>"

text \<open>
  Totals whose \<^verbatim>\<open>knowledge\<close> is \<open>2 ^ 53\<close>, and totals whose \<^verbatim>\<open>knowledge\<close> is three
  less; entries that gain one and two points of \<^verbatim>\<open>knowledge\<close>.
\<close>

definition edge_stats :: stats where
  "edge_stats = [(''diligence'', 0), (''knowledge'', 9007199254740992), (''courage'', 0),
                 (''understanding'', 0), (''expression'', 0)]"

definition near_edge_stats :: stats where
  "near_edge_stats = [(''diligence'', 0), (''knowledge'', 9007199254740989), (''courage'', 0),
                      (''understanding'', 0), (''expression'', 0)]"

definition one_entry :: "stats entry" where
  "one_entry = book_entry\<lparr>gains := [(''diligence'', 0), (''knowledge'', 1), (''courage'', 0),
                                       (''understanding'', 0), (''expression'', 0)]\<rparr>"

definition two_entry :: "stats entry" where
  "two_entry = talk_entry\<lparr>gains := [(''diligence'', 0), (''knowledge'', 2), (''courage'', 0),
                                       (''understanding'', 0), (''expression'', 0)]\<rparr>"

text \<open>
  A reading of ids as dates given by a table: it reads the ids of the table, with their
  time values in milliseconds, and no other text. The table holds ISO texts as
  \<^verbatim>\<open>toISOString\<close> makes them; the ids of \<open>book_entry\<close> and \<open>talk_entry\<close>, which go on
  after the \<^verbatim>\<open>Z\<close> with the digits of \<^verbatim>\<open>Math.random()\<close>, are no dates.
\<close>

definition table_date :: "(string \<times> int) list \<Rightarrow> date_reader" where
  "table_date tab t = map_of tab t"

definition example_dates :: "(string \<times> int) list" where
  "example_dates =
     [(''2025-01-02T10:00:00.000Z'', 1735812000000),
      (''2025-01-02T18:30:00.000Z'', 1735842600000),
      (''2025-01-03T08:00:00.000Z'', 1735891200000)]"

text \<open>
  A printer given by a table, as the parser, and a file system that is the list of the
  files written, latest first.
\<close>

definition table_print :: "(json \<times> string) list \<Rightarrow> printer" where
  "table_print tab v = (case map_of tab v of Some t \<Rightarrow> t | None \<Rightarrow> [])"

definition write_ok :: "string \<Rightarrow> string \<Rightarrow> (string \<times> string) list \<Rightarrow> error + (string \<times> string) list" where
  "write_ok name content fs = Inr ((name, content) # fs)"

text \<open>
  The state after the spec's example entry is saved, the state of a first run, and the
  export document of the first with its text, as \<^verbatim>\<open>JSON.stringify(data, null, 2)\<close>
  prints it.
\<close>

definition example_state :: app_data where
  "example_state = state_json (saved [book_entry])"

definition first_run_state :: app_data where
  "first_run_state = state_json ([], initial_stats)"

definition example_document :: json where
  "example_document =
     Obj [(''allEntries'',
           Arr [Obj [(''id'', Str ''2025-01-02T10:00:00.000Z0.25''),
                     (''date'', Str ''2025-01-02''),
                     (''activity'', Str ''read a book''),
                     (''feeling'', Str ''learned a lot''),
                     (''gains'', Obj [(''diligence'', Num 1), (''knowledge'', Num 4),
                                      (''courage'', Num 0), (''understanding'', Num 0),
                                      (''expression'', Num 0)])]]),
          (''playerStats'', Obj [(''diligence'', Num 1), (''knowledge'', Num 4),
                                 (''courage'', Num 0), (''understanding'', Num 0),
                                 (''expression'', Num 0)]),
          (''exportDate'', Str ''2025-01-03T09:00:00.000Z'')]"

definition example_export_text :: string where
  \<open>example_export_text =
     ''{\<newline>  "allEntries": [\<newline>    {\<newline>      "id": "2025-01-02T10:00:00.000Z0.25",\<newline>'' @
     ''      "date": "2025-01-02",\<newline>      "activity": "read a book",\<newline>'' @
     ''      "feeling": "learned a lot",\<newline>      "gains": {\<newline>'' @
     ''        "diligence": 1,\<newline>        "knowledge": 4,\<newline>        "courage": 0,\<newline>'' @
     ''        "understanding": 0,\<newline>        "expression": 0\<newline>      }\<newline>    }\<newline>  ],\<newline>'' @
     ''  "playerStats": {\<newline>    "diligence": 1,\<newline>    "knowledge": 4,\<newline>    "courage": 0,\<newline>'' @
     ''    "understanding": 0,\<newline>    "expression": 0\<newline>  },\<newline>'' @
     ''  "exportDate": "2025-01-03T09:00:00.000Z"\<newline>}''\<close>

text \<open>
  Texts of import files: one that is not JSON, \<^verbatim>\<open>null\<close>, a document without
  \<^verbatim>\<open>playerStats\<close>, one whose \<^verbatim>\<open>allEntries\<close> is \<^verbatim>\<open>null\<close>, and one whose two values
  are truthy but no entry list and no totals. \<open>example_texts\<close> gives what the runtime
  parses them to; \<open>broken_text\<close> has no value.
\<close>

definition broken_text :: string where
  \<open>broken_text = ''{"allEntries": [''\<close>

definition null_text :: string where
  "null_text = ''null''"

definition no_stats_text :: string where
  \<open>no_stats_text = ''{"allEntries":[]}''\<close>

definition null_entries_text :: string where
  \<open>null_entries_text = ''{"allEntries":null,"playerStats":{}}''\<close>

definition odd_values_text :: string where
  \<open>odd_values_text = ''{"allEntries":5,"playerStats":"x"}''\<close>

definition example_texts :: "(string \<times> json) list" where
  "example_texts =
     [(example_export_text, example_document),
      (null_text, Null),
      (no_stats_text, Obj [(''allEntries'', Arr [])]),
      (null_entries_text, Obj [(''allEntries'', Null), (''playerStats'', Obj [])]),
      (odd_values_text, Obj [(''allEntries'', Num 5), (''playerStats'', Str ''x'')])]"

definition example_prints :: "(json \<times> string) list" where
  "example_prints = [(example_document, example_export_text)]"

section \<open>The request loop: retries and failures\<close>

declare fetchWithBackoff.simps [simp del]

lemma fwb_retry:
  "ep (calls s) = Response False 429 b \<Longrightarrow> 0 < retries \<Longrightarrow>
   fetchWithBackoff ep retries delay s =
   fetchWithBackoff ep (retries - 1) (delay * 2) (s\<lparr>calls := calls s + 1, waits := waits s @ [delay]\<rparr>)"
  by (subst fetchWithBackoff.simps) (simp add: Let_def)

lemma fwb_fail:
  "ep (calls s) = Response False st b \<Longrightarrow> st \<noteq> 429 \<or> retries = 0 \<Longrightarrow>
   fetchWithBackoff ep retries delay s = (Inl (RequestFailed st), s\<lparr>calls := calls s + 1\<rparr>)"
  by (subst fetchWithBackoff.simps) (auto simp add: Let_def)

lemma fwb_ok:
  "ep (calls s) = Response True st (Some j) \<Longrightarrow>
   fetchWithBackoff ep retries delay s = (Inr j, s\<lparr>calls := calls s + 1\<rparr>)"
  by (subst fetchWithBackoff.simps) (simp add: Let_def)

lemma backoff_Suc: "backoff d (Suc k) = d # backoff (d * 2) k"
  by (simp add: backoff_def upt_rec[of 0] map_Suc_upt[symmetric] del: upt_Suc) 

lemma fwb_retries:
  "k \<le> r \<Longrightarrow> (\<forall>i<k. \<exists>b. ep (calls s + i) = Response False 429 b) \<Longrightarrow>
   fetchWithBackoff ep r d s =
   fetchWithBackoff ep (r - k) (d * 2 ^ k) (s\<lparr>calls := calls s + k, waits := waits s @ backoff d k\<rparr>)"
proof (induction k arbitrary: r d s)
  case 0
  then show ?case by (simp add: backoff_def)
next
  case (Suc k)
  from Suc.prems(2) obtain b where b: "ep (calls s) = Response False 429 b"
    by (metis add.right_neutral zero_less_Suc)
  let ?s = "s\<lparr>calls := calls s + 1, waits := waits s @ [d]\<rparr>"
  have later: "\<forall>i<k. \<exists>b. ep (calls ?s + i) = Response False 429 b"
  proof (intro allI impI)
    fix i assume "i < k"
    then have "Suc i < Suc k" by simp
    with Suc.prems(2) have "\<exists>b. ep (calls s + Suc i) = Response False 429 b" by blast
    then show "\<exists>b. ep (calls ?s + i) = Response False 429 b" by simp
  qed
  have "fetchWithBackoff ep r d s = fetchWithBackoff ep (r - 1) (d * 2) ?s"
    using b Suc.prems(1) by (intro fwb_retry) auto
  also have "\<dots> = fetchWithBackoff ep (r - 1 - k) (d * 2 * 2 ^ k)
                      (?s\<lparr>calls := calls ?s + k, waits := waits ?s @ backoff (d * 2) k\<rparr>)"
    using Suc.prems(1) later by (intro Suc.IH) auto
  finally show ?case by (simp add: backoff_Suc mult.assoc)
qed

lemma backoff_5: "backoff 1000 5 = [1000, 2000, 4000, 8000, 16000]"
  by code_simp

lemma backoff_2: "backoff 1000 2 = [1000, 2000]"
  by code_simp

text \<open>
  Claim C2, as the code has it. With the default policy of 5 retries and a first delay
  of 1000 ms, a request that is answered with the status 429 on six calls in a row (the
  first attempt and each of the five retries) ends with the request-failure error for
  the status 429, after six calls and the delays 1 s, 2 s, 4 s, 8 s and 16 s.
\<close>

theorem six_429_terminal:
  assumes "\<forall>i<6. \<exists>b. ep i = Response False 429 b"
  shows "fetchWithBackoff ep default_retries default_delay net0 =
     (Inl (RequestFailed 429), \<lparr>calls = 6, waits = [1000, 2000, 4000, 8000, 16000]\<rparr>)"
proof -
  have "(5::nat) < 6" by simp
  with assms obtain b where b: "ep 5 = Response False 429 b" by blast
  have "fetchWithBackoff ep 5 1000 net0 =
        fetchWithBackoff ep (5 - 5) (1000 * 2 ^ 5)
          (net0\<lparr>calls := calls net0 + 5, waits := waits net0 @ backoff 1000 5\<rparr>)"
    using assms by (intro fwb_retries) (simp_all add: net0_def)
  also have "\<dots> = (Inl (RequestFailed 429), \<lparr>calls = 6, waits = [1000, 2000, 4000, 8000, 16000]\<rparr>)"
    using b by (subst fwb_fail[where st = 429 and b = b]) (simp_all add: net0_def backoff_5)
  finally show ?thesis by (simp add: default_retries_def default_delay_def)
qed

text \<open>The theorem at the endpoint that limits the rate on every call.\<close>

theorem six_429_terminal_witness:
  "always_429 0 = Response False 429 None \<and> always_429 1 = Response False 429 None \<and>
   always_429 2 = Response False 429 None \<and> always_429 3 = Response False 429 None \<and>
   always_429 4 = Response False 429 None \<and> always_429 5 = Response False 429 None \<and>
   fetchWithBackoff always_429 default_retries default_delay net0 =
     (Inl (RequestFailed 429), \<lparr>calls = 6, waits = [1000, 2000, 4000, 8000, 16000]\<rparr>)"
proof -
  have h: "\<forall>i<6. \<exists>b. always_429 i = Response False 429 b" by (simp add: always_429_def)
  have c: "always_429 0 = Response False 429 None" "always_429 1 = Response False 429 None"
    "always_429 2 = Response False 429 None" "always_429 3 = Response False 429 None"
    "always_429 4 = Response False 429 None" "always_429 5 = Response False 429 None"
    by (simp_all add: always_429_def)
  show ?thesis using c six_429_terminal [OF h] by simp
qed

text \<open>
  Claim C2 as stated fails: five answers 429 in a row do not end the request. The
  fifth retry is a sixth call, and when that call succeeds the request succeeds, after
  the same five delays.
\<close>

theorem five_429_not_terminal:
  "five_429_then_ok 0 = Response False 429 None \<and>
   five_429_then_ok 1 = Response False 429 None \<and>
   five_429_then_ok 2 = Response False 429 None \<and>
   five_429_then_ok 3 = Response False 429 None \<and>
   five_429_then_ok 4 = Response False 429 None \<and>
   fetchWithBackoff five_429_then_ok default_retries default_delay net0 =
     (Inr Null, \<lparr>calls = 6, waits = [1000, 2000, 4000, 8000, 16000]\<rparr>)"
proof -
  have "fetchWithBackoff five_429_then_ok 5 1000 net0 =
        fetchWithBackoff five_429_then_ok (5 - 5) (1000 * 2 ^ 5)
          (net0\<lparr>calls := calls net0 + 5, waits := waits net0 @ backoff 1000 5\<rparr>)"
    by (rule fwb_retries) (simp_all add: five_429_then_ok_def net0_def)
  also have "\<dots> = (Inr Null, \<lparr>calls = 6, waits = [1000, 2000, 4000, 8000, 16000]\<rparr>)"
    by (subst fwb_ok[where st = 200 and j = Null]) (simp_all add: five_429_then_ok_def net0_def backoff_5)
  finally show ?thesis by (simp add: default_retries_def default_delay_def five_429_then_ok_def)
qed

text \<open>
  Claim C3. When the first two calls are answered with the status 429 and the third
  succeeds with a JSON body, the request with the default policy succeeds after three calls, and the
  delays it waited are 1000 ms and 2000 ms, 3000 ms in all. On an answer 429 with
  retries left, the request waits the current delay and goes on with the delay doubled
  and one retry fewer. On a failure status other than 429 it fails at once with the
  request-failure error: one call, no delay, whatever the retries left.
\<close>

theorem backoff_then_success:
  "(ep 0 = Response False 429 b0 \<and> ep 1 = Response False 429 b1 \<and> ep 2 = Response True st (Some j)
      \<longrightarrow> fetchWithBackoff ep default_retries default_delay net0 =
            (Inr j, \<lparr>calls = 3, waits = [1000, 2000]\<rparr>)
          \<and> sum_list (waits (snd (fetchWithBackoff ep default_retries default_delay net0))) = 1000 + 2000)
   \<and> (ep1 (calls s1) = Response False 429 b \<and> 0 < r1
      \<longrightarrow> fetchWithBackoff ep1 r1 d1 s1 =
            fetchWithBackoff ep1 (r1 - 1) (d1 * 2)
              (s1\<lparr>calls := calls s1 + 1, waits := waits s1 @ [d1]\<rparr>))
   \<and> (ep2 (calls s2) = Response False st2 b2 \<and> st2 \<noteq> 429
      \<longrightarrow> fetchWithBackoff ep2 r2 d2 s2 =
            (Inl (RequestFailed st2), s2\<lparr>calls := calls s2 + 1\<rparr>))"
proof (intro conjI impI)
  assume a: "ep 0 = Response False 429 b0 \<and> ep 1 = Response False 429 b1 \<and> ep 2 = Response True st (Some j)"
  have first: "\<forall>i<2. \<exists>b. ep (calls net0 + i) = Response False 429 b"
  proof (intro allI impI)
    fix i :: nat assume "i < 2"
    then have "i = 0 \<or> i = 1" by auto
    with a show "\<exists>b. ep (calls net0 + i) = Response False 429 b" by (auto simp: net0_def)
  qed
  have third: "ep (Suc (Suc 0)) = Response True st (Some j)"
    using a by (simp add: numeral_2_eq_2)
  have "fetchWithBackoff ep 5 1000 net0 =
        fetchWithBackoff ep (5 - 2) (1000 * 2 ^ 2)
          (net0\<lparr>calls := calls net0 + 2, waits := waits net0 @ backoff 1000 2\<rparr>)"
    using first by (intro fwb_retries) simp_all
  also have "\<dots> = (Inr j, \<lparr>calls = 3, waits = [1000, 2000]\<rparr>)"
    using third by (subst fwb_ok[where st = st and j = j]) (simp_all add: net0_def backoff_2)
  finally show r: "fetchWithBackoff ep default_retries default_delay net0 =
            (Inr j, \<lparr>calls = 3, waits = [1000, 2000]\<rparr>)"
    by (simp add: default_retries_def default_delay_def)
  show "sum_list (waits (snd (fetchWithBackoff ep default_retries default_delay net0))) = 1000 + 2000"
    by (simp add: r)
next
  assume "ep1 (calls s1) = Response False 429 b \<and> 0 < r1"
  then show "fetchWithBackoff ep1 r1 d1 s1 =
            fetchWithBackoff ep1 (r1 - 1) (d1 * 2)
              (s1\<lparr>calls := calls s1 + 1, waits := waits s1 @ [d1]\<rparr>)"
    by (intro fwb_retry[where b = b]) simp_all
next
  assume "ep2 (calls s2) = Response False st2 b2 \<and> st2 \<noteq> 429"
  then show "fetchWithBackoff ep2 r2 d2 s2 =
            (Inl (RequestFailed st2), s2\<lparr>calls := calls s2 + 1\<rparr>)"
    by (intro fwb_fail[where b = b2]) simp_all
qed

text \<open>
  The theorem at the endpoint that limits the rate on the first two calls, and at the
  endpoint that answers 500.
\<close>

theorem backoff_then_success_witness:
  "(two_429_then_ok 0 = Response False 429 None \<and> two_429_then_ok 1 = Response False 429 None
      \<and> two_429_then_ok 2 = Response True 200 (Some Null))
   \<and> fetchWithBackoff two_429_then_ok default_retries default_delay net0 =
        (Inr Null, \<lparr>calls = 3, waits = [1000, 2000]\<rparr>)
   \<and> sum_list (waits (snd (fetchWithBackoff two_429_then_ok default_retries default_delay net0))) = 3000
   \<and> (always_429 (calls net0) = Response False 429 None \<and> (0::nat) < 5)
   \<and> fetchWithBackoff always_429 5 1000 net0 =
        fetchWithBackoff always_429 4 2000 \<lparr>calls = 1, waits = [1000]\<rparr>
   \<and> (always_500 (calls net0) = Response False 500 None \<and> (500::nat) \<noteq> 429)
   \<and> fetchWithBackoff always_500 5 1000 net0 = (Inl (RequestFailed 500), \<lparr>calls = 1, waits = []\<rparr>)"
  using backoff_then_success [where ep = two_429_then_ok and ?b0.0 = None and ?b1.0 = None
      and st = 200 and j = Null and ?ep1.0 = always_429 and ?s1.0 = net0 and b = None
      and ?r1.0 = 5 and ?d1.0 = 1000 and ?ep2.0 = always_500 and ?s2.0 = net0 and ?st2.0 = 500
      and ?b2.0 = None and ?r2.0 = 5 and ?d2.0 = 1000]
  by (simp add: two_429_then_ok_def always_429_def always_500_def net0_def)

section \<open>The estimator never throws\<close>

lemma callAiModel_returns: "\<exists>g. callAiModel P srv a f = Inr g"
  by (simp add: callAiModel_def split: sum.split)

lemma callAiModel_fallback:
  "callAiModel_try P srv a f = Inl e \<Longrightarrow> callAiModel P srv a f = Inr zero_gains"
  by (simp add: callAiModel_def)

text \<open>
  Claim C1. For every activity and feeling, \<^verbatim>\<open>callAiModel\<close> returns a value and never
  an exception. When the request fails (a rejection, a failure status, retries used up,
  a body that is not JSON), when the text is not found in the response, or when the
  text is not JSON, the value is the all-zero gains. So a submission whose two fields
  are not blank always saves its entry, with the gains the estimator returned.
\<close>

theorem callAiModel_never_throws:
  "(\<exists>g. callAiModel P srv a f = Inr g)
   \<and> (fst (fetchWithBackoff (srv1 a1 f1) default_retries default_delay net0) = Inl e1
        \<longrightarrow> callAiModel P1 srv1 a1 f1 = Inr zero_gains)
   \<and> (fst (fetchWithBackoff (srv2 a2 f2) default_retries default_delay net0) = Inr r2
        \<and> response_text r2 = Inl e2
        \<longrightarrow> callAiModel P2 srv2 a2 f2 = Inr zero_gains)
   \<and> (fst (fetchWithBackoff (srv3 a3 f3) default_retries default_delay net0) = Inr r3
        \<and> response_text r3 = Inr t3 \<and> parse_value P3 t3 = Inl e3
        \<longrightarrow> callAiModel P3 srv3 a3 f3 = Inr zero_gains)
   \<and> (trim a4 \<noteq> [] \<and> trim f4 \<noteq> []
        \<longrightarrow> (\<exists>g. callAiModel P4 srv4 a4 f4 = Inr g \<and>
                 handleSubmit trim P4 srv4 onSave n1 rnd n2 a4 f4 s =
                   (Submitted, onSave \<lparr>id_entry = n1 @ rnd, date = iso_day n2, activity = a4,
                                       feeling = f4, gains = g\<rparr> s)))"
proof (intro conjI impI)
  show "\<exists>g. callAiModel P srv a f = Inr g" by (rule callAiModel_returns)
next
  assume "fst (fetchWithBackoff (srv1 a1 f1) default_retries default_delay net0) = Inl e1"
  then have "callAiModel_try P1 srv1 a1 f1 = Inl e1"
    by (simp add: callAiModel_try_def then_do_def)
  then show "callAiModel P1 srv1 a1 f1 = Inr zero_gains" by (rule callAiModel_fallback)
next
  assume "fst (fetchWithBackoff (srv2 a2 f2) default_retries default_delay net0) = Inr r2
        \<and> response_text r2 = Inl e2"
  then have "callAiModel_try P2 srv2 a2 f2 = Inl e2"
    by (simp add: callAiModel_try_def then_do_def)
  then show "callAiModel P2 srv2 a2 f2 = Inr zero_gains" by (rule callAiModel_fallback)
next
  assume "fst (fetchWithBackoff (srv3 a3 f3) default_retries default_delay net0) = Inr r3
        \<and> response_text r3 = Inr t3 \<and> parse_value P3 t3 = Inl e3"
  then have "callAiModel_try P3 srv3 a3 f3 = Inl e3"
    by (simp add: callAiModel_try_def then_do_def)
  then show "callAiModel P3 srv3 a3 f3 = Inr zero_gains" by (rule callAiModel_fallback)
next
  assume v: "trim a4 \<noteq> [] \<and> trim f4 \<noteq> []"
  obtain g where g: "callAiModel P4 srv4 a4 f4 = Inr g"
    using callAiModel_returns by blast
  with v have "handleSubmit trim P4 srv4 onSave n1 rnd n2 a4 f4 s =
                   (Submitted, onSave \<lparr>id_entry = n1 @ rnd, date = iso_day n2, activity = a4,
                                       feeling = f4, gains = g\<rparr> s)"
    by (simp add: handleSubmit_def)
  with g show "\<exists>g. callAiModel P4 srv4 a4 f4 = Inr g \<and>
                 handleSubmit trim P4 srv4 onSave n1 rnd n2 a4 f4 s =
                   (Submitted, onSave \<lparr>id_entry = n1 @ rnd, date = iso_day n2, activity = a4,
                                       feeling = f4, gains = g\<rparr> s)" by blast
qed


text \<open>
  The theorem at a service that answers 500, at one whose body has no candidate, and at
  one whose text is not JSON.
\<close>

lemma ex_fetch_500:
  "fst (fetchWithBackoff (srv_500 ''read'' ''good'') default_retries default_delay net0) =
     Inl (RequestFailed 500)"
  by code_simp

lemma ex_fetch_reply:
  "fst (fetchWithBackoff (srv_reply j ''read'' ''good'') default_retries default_delay net0) = Inr j"
  by (simp add: srv_reply_def fwb_ok[where st = 200])

lemma ex_text_missing: "response_text (Obj []) = Inl InvalidAiResponse"
  by code_simp

lemma ex_text_there: "response_text (ai_reply (Str ''oops'')) = Inr (Some (Str ''oops''))"
  by code_simp

lemma ex_parse_fails: "parse_value (table_parse one_number) (Some (Str ''oops'')) = Inl SyntaxError"
  by code_simp

lemma ex_trim: "trim_spaces ''read'' \<noteq> [] \<and> trim_spaces '' good '' \<noteq> []"
  by code_simp

theorem callAiModel_never_throws_witness:
  "(\<exists>g. callAiModel (table_parse one_number) (srv_reply (ai_reply (Str ''5''))) ''read'' ''good'' = Inr g)
   \<and> fst (fetchWithBackoff (srv_500 ''read'' ''good'') default_retries default_delay net0) =
        Inl (RequestFailed 500)
   \<and> callAiModel (table_parse one_number) srv_500 ''read'' ''good'' = Inr zero_gains
   \<and> response_text (Obj []) = Inl InvalidAiResponse
   \<and> callAiModel (table_parse one_number) (srv_reply (Obj [])) ''read'' ''good'' = Inr zero_gains
   \<and> response_text (ai_reply (Str ''oops'')) = Inr (Some (Str ''oops''))
   \<and> parse_value (table_parse one_number) (Some (Str ''oops'')) = Inl SyntaxError
   \<and> callAiModel (table_parse one_number) (srv_reply (ai_reply (Str ''oops''))) ''read'' ''good'' =
        Inr zero_gains
   \<and> trim_spaces ''read'' \<noteq> [] \<and> trim_spaces '' good '' \<noteq> []
   \<and> handleSubmit trim_spaces (table_parse one_number) srv_500 collect
        ''2025-01-02T10:00:00.000Z'' ''0.25'' ''2025-01-02T10:00:00.001Z'' ''read'' '' good '' [] =
        (Submitted, [\<lparr>id_entry = ''2025-01-02T10:00:00.000Z0.25'', date = ''2025-01-02'',
                      activity = ''read'', feeling = '' good '', gains = zero_gains\<rparr>])"
proof -
  note t = callAiModel_never_throws [where P = "table_parse one_number"
      and srv = "srv_reply (ai_reply (Str ''5''))" and a = "''read''" and f = "''good''"
      and ?P1.0 = "table_parse one_number" and ?srv1.0 = srv_500 and ?a1.0 = "''read''"
      and ?f1.0 = "''good''" and ?e1.0 = "RequestFailed 500"
      and ?P2.0 = "table_parse one_number" and ?srv2.0 = "srv_reply (Obj [])" and ?a2.0 = "''read''"
      and ?f2.0 = "''good''" and ?r2.0 = "Obj []" and ?e2.0 = InvalidAiResponse
      and ?P3.0 = "table_parse one_number" and ?srv3.0 = "srv_reply (ai_reply (Str ''oops''))"
      and ?a3.0 = "''read''" and ?f3.0 = "''good''" and ?r3.0 = "ai_reply (Str ''oops'')"
      and ?t3.0 = "Some (Str ''oops'')" and ?e3.0 = SyntaxError
      and trim = trim_spaces and ?a4.0 = "''read''" and ?f4.0 = "'' good ''"
      and ?P4.0 = "table_parse one_number" and ?srv4.0 = srv_500 and onSave = collect
      and ?n1.0 = "''2025-01-02T10:00:00.000Z''" and rnd = "''0.25''"
      and ?n2.0 = "''2025-01-02T10:00:00.001Z''" and s = "[]"]
  have day: "iso_day ''2025-01-02T10:00:00.001Z'' = ''2025-01-02''" by code_simp
  have gz: "callAiModel (table_parse one_number) srv_500 ''read'' '' good '' = Inr zero_gains"
    by code_simp
  show ?thesis
    using t ex_fetch_500 ex_fetch_reply ex_text_missing ex_text_there ex_parse_fails ex_trim
    by (simp add: day gz collect_def)
qed

section \<open>Loading a persisted value\<close>

text \<open>
  Claim C9, as the code has it. For every key and default value, the initializer of
  \<^verbatim>\<open>useLocalStorage\<close> returns a value and never an exception. It returns the default
  when the key is not in the store, when the stored text is empty, when the stored text
  is not JSON (\<^verbatim>\<open>JSON.parse\<close> throws), and when the store cannot be reached. A stored
  text that is JSON is returned as it parses, whatever its structure.
\<close>

theorem useLocalStorage_init_default:
  "(\<exists>v. useLocalStorage_init P getItem key d = Inr v)
   \<and> (getItem1 key1 = Inr None \<longrightarrow> useLocalStorage_init P1 getItem1 key1 d1 = Inr d1)
   \<and> (getItem2 key2 = Inr (Some t2) \<and> P2 (Str t2) = None
        \<longrightarrow> useLocalStorage_init P2 getItem2 key2 d2 = Inr d2)
   \<and> (getItem3 key3 = Inl e3 \<longrightarrow> useLocalStorage_init P3 getItem3 key3 d3 = Inr d3)
   \<and> (getItem4 key4 = Inr (Some []) \<longrightarrow> useLocalStorage_init P4 getItem4 key4 d4 = Inr d4)
   \<and> (getItem5 key5 = Inr (Some t5) \<and> t5 \<noteq> [] \<and> P5 (Str t5) = Some v5
        \<longrightarrow> useLocalStorage_init P5 getItem5 key5 d5 = Inr v5)"
  by (auto simp add: useLocalStorage_init_def Let_def split: sum.split option.split)

text \<open>
  The theorem at an empty store, at stores with a broken text, with the empty text and
  with the text \<^verbatim>\<open>5\<close>, and at no store.
\<close>

theorem useLocalStorage_init_default_witness:
  "useLocalStorage_init (table_parse one_number) (store_of [(''personaDailyStats'', ''5'')])
          ''personaDailyStats'' zero_gains = Inr (Num 5)
   \<and> store_of [] ''personaDailyStats'' = Inr None
   \<and> useLocalStorage_init (table_parse one_number) (store_of []) ''personaDailyStats'' zero_gains =
        Inr zero_gains
   \<and> store_of [(''personaDailyStats'', ''{oops'')] ''personaDailyStats'' = Inr (Some ''{oops'')
   \<and> table_parse one_number (Str ''{oops'') = None
   \<and> useLocalStorage_init (table_parse one_number) (store_of [(''personaDailyStats'', ''{oops'')])
        ''personaDailyStats'' zero_gains = Inr zero_gains
   \<and> no_store ''personaDailyStats'' = Inl StorageError
   \<and> useLocalStorage_init (table_parse one_number) no_store ''personaDailyStats'' zero_gains =
        Inr zero_gains
   \<and> store_of [(''personaDailyStats'', [])] ''personaDailyStats'' = Inr (Some [])
   \<and> useLocalStorage_init (table_parse one_number) (store_of [(''personaDailyStats'', [])])
        ''personaDailyStats'' zero_gains = Inr zero_gains
   \<and> store_of [(''personaDailyStats'', ''5'')] ''personaDailyStats'' = Inr (Some ''5'')
   \<and> table_parse one_number (Str ''5'') = Some (Num 5)"
  using useLocalStorage_init_default [where P = "table_parse one_number"
      and getItem = "store_of [(''personaDailyStats'', ''5'')]" and key = "''personaDailyStats''"
      and d = zero_gains
      and ?P1.0 = "table_parse one_number" and ?getItem1.0 = "store_of []"
      and ?key1.0 = "''personaDailyStats''" and ?d1.0 = zero_gains
      and ?P2.0 = "table_parse one_number"
      and ?getItem2.0 = "store_of [(''personaDailyStats'', ''{oops'')]"
      and ?key2.0 = "''personaDailyStats''" and ?t2.0 = "''{oops''" and ?d2.0 = zero_gains
      and ?P3.0 = "table_parse one_number" and ?getItem3.0 = no_store
      and ?key3.0 = "''personaDailyStats''" and ?e3.0 = StorageError and ?d3.0 = zero_gains
      and ?P4.0 = "table_parse one_number"
      and ?getItem4.0 = "store_of [(''personaDailyStats'', [])]"
      and ?key4.0 = "''personaDailyStats''" and ?d4.0 = zero_gains
      and ?P5.0 = "table_parse one_number"
      and ?getItem5.0 = "store_of [(''personaDailyStats'', ''5'')]"
      and ?key5.0 = "''personaDailyStats''" and ?t5.0 = "''5''" and ?v5.0 = "Num 5"
      and ?d5.0 = zero_gains]
  by (simp add: store_of_def no_store_def table_parse_def one_number_def)

text \<open>
  Claim C9 as stated fails: the initializer checks no structure. Under the key of the
  totals, whose default is the object of the five zero totals, the stored text
  \<^verbatim>\<open>5\<close> parses, and the number 5 is returned, not the default.
\<close>

theorem stored_number_is_returned:
  "store_of [(''personaDailyStats'', ''5'')] ''personaDailyStats'' = Inr (Some ''5'')
   \<and> table_parse one_number (Str ''5'') = Some (Num 5)
   \<and> useLocalStorage_init (table_parse one_number) (store_of [(''personaDailyStats'', ''5'')])
        ''personaDailyStats'' zero_gains = Inr (Num 5)
   \<and> Num 5 \<noteq> zero_gains"
  by (simp add: useLocalStorage_init_def store_of_def table_parse_def one_number_def zero_gains_def)

section \<open>Addition of doubles\<close>

declare bit_length.simps [simp del]

lemma bit_length_le: "n < 2 ^ w \<Longrightarrow> bit_length n \<le> w"
proof (induction n arbitrary: w rule: bit_length.induct)
  case (1 n)
  show ?case
  proof (cases "n \<le> 0")
    case True
    then show ?thesis by (simp add: bit_length.simps[of n])
  next
    case False
    with 1(2) have "w \<noteq> 0" by (cases w) auto
    then obtain v where w: "w = Suc v" by (cases w) auto
    with 1(2) have "n div 2 < 2 ^ v" by simp
    with False 1(1) have "bit_length (n div 2) \<le> v" by simp
    with False w show ?thesis by (simp add: bit_length.simps[of n])
  qed
qed

lemma bit_length_less: "n < 2 ^ bit_length n"
proof (induction n rule: bit_length.induct)
  case (1 n)
  show ?case
  proof (cases "n \<le> 0")
    case True
    then show ?thesis by (simp add: bit_length.simps[of n])
  next
    case False
    with 1 have "n div 2 < 2 ^ bit_length (n div 2)" by simp
    then have "n < 2 * 2 ^ bit_length (n div 2)" by linarith
    with False show ?thesis by (simp add: bit_length.simps[of n])
  qed
qed

lemma bit_length_ge: "0 < n \<Longrightarrow> 2 ^ (bit_length n - 1) \<le> n"
proof (induction n rule: bit_length.induct)
  case (1 n)
  from 1(2) have b: "bit_length n = Suc (bit_length (n div 2))" by (simp add: bit_length.simps[of n])
  show ?case
  proof (cases "0 < n div 2")
    case True
    with 1 have "2 ^ (bit_length (n div 2) - 1) \<le> n div 2" by simp
    moreover from True have "bit_length (n div 2) \<noteq> 0" by (simp add: bit_length.simps[of "n div 2"])
    then obtain c where c: "bit_length (n div 2) = Suc c" by (cases "bit_length (n div 2)") auto
    ultimately have "2 * 2 ^ c \<le> 2 * (n div 2)" by simp
    also have "\<dots> \<le> n" by simp
    finally show ?thesis by (simp add: b c)
  next
    case False
    then have "bit_length (n div 2) = 0" by (simp add: bit_length.simps[of "n div 2"])
    with 1(2) show ?thesis by (simp add: b)
  qed
qed

lemma bit_length_mono: "x \<le> y \<Longrightarrow> bit_length x \<le> bit_length y"
proof -
  assume "x \<le> y"
  also have "y < 2 ^ bit_length y" by (rule bit_length_less)
  finally show ?thesis by (rule bit_length_le)
qed

lemma to_double_exact: "\<bar>x\<bar> \<le> 2 ^ 53 \<Longrightarrow> to_double x = x"
proof (cases "\<bar>x\<bar> < 2 ^ 53")
  case True
  then have "bit_length \<bar>x\<bar> \<le> 53" by (rule bit_length_le)
  then show ?thesis by (simp add: to_double_def Let_def mult_sgn_abs)
next
  case False
  assume "\<bar>x\<bar> \<le> 2 ^ 53"
  with False have n: "\<bar>x\<bar> = 2 ^ 53" by simp
  then have "\<bar>x\<bar> < 2 ^ 54" by simp
  then have "bit_length \<bar>x\<bar> \<le> 54" by (rule bit_length_le)
  moreover have "\<not> bit_length \<bar>x\<bar> \<le> 53"
  proof
    assume "bit_length \<bar>x\<bar> \<le> 53"
    then have "(2::int) ^ bit_length \<bar>x\<bar> \<le> 2 ^ 53" by (rule power_increasing) simp
    with bit_length_less[of "\<bar>x\<bar>"] n show False by simp
  qed
  ultimately have "bit_length \<bar>x\<bar> = 54" by simp
  then have "to_double x = sgn x * 2 ^ 53" by (simp add: to_double_def Let_def n)
  also have "\<dots> = sgn x * \<bar>x\<bar>" by (simp add: n)
  finally show ?thesis by (simp add: mult_sgn_abs)
qed

lemma js_add_exact: "\<bar>a + b\<bar> \<le> 2 ^ 53 \<Longrightarrow> js_add a b = a + b"
  by (simp add: js_add_def to_double_exact)

lemma below_multiple:
  fixes a u x :: int
  assumes "0 < u" and "u dvd a" and "a \<le> x"
  shows "a \<le> (x div u) * u"
proof -
  from assms(2) obtain c where c: "a = c * u" by (auto simp: dvd_def mult.commute)
  with assms(1,3) have "c \<le> x div u"
    by (metis div_mult_self_is_m zdiv_mono1 nonzero_mult_div_cancel_right less_irrefl)
  with assms(1) show ?thesis by (simp add: c mult_right_mono)
qed

lemma to_double_ge_floor:
  assumes "0 < x"
  shows "(x div 2 ^ (bit_length x - 53)) * 2 ^ (bit_length x - 53) \<le> to_double x"
proof -
  let ?u = "(2::int) ^ (bit_length x - 53)"
  have u: "0 < ?u" by simp
  have q: "0 \<le> x div ?u" using assms by (simp add: pos_imp_zdiv_nonneg_iff)
  have "(x div ?u) * ?u \<le> (x div ?u + 1) * ?u" using u by (simp add: distrib_right)
  then show ?thesis using assms by (simp add: to_double_def Let_def)
qed

lemma to_double_above:
  assumes t: "0 \<le> t" and d: "is_double t" and le: "t \<le> x"
  shows "t \<le> to_double x"
proof (cases "x = 0")
  case True
  with t le show ?thesis by (simp add: to_double_def Let_def)
next
  case False
  with t le have x: "0 < x" by simp
  let ?k = "bit_length x - 53"
  let ?u = "(2::int) ^ ?k"
  have m: "bit_length t \<le> bit_length x" using le by (rule bit_length_mono)
  have "t \<le> (x div ?u) * ?u"
  proof (cases "bit_length t - 53 = ?k")
    case True
    with d t have "?u dvd t" by (simp add: is_double_def)
    with le show ?thesis by (intro below_multiple) simp_all
  next
    case False
    with m have lt: "bit_length t < bit_length x" and big: "53 < bit_length x" by auto
    have "t < 2 ^ bit_length t" by (rule bit_length_less)
    also have "(2::int) ^ bit_length t \<le> 2 ^ (bit_length x - 1)"
      using lt by (intro power_increasing) simp_all
    finally have t1: "t < 2 ^ (bit_length x - 1)" .
    have p: "2 ^ (bit_length x - 1) \<le> x" using x by (rule bit_length_ge)
    have "?u dvd 2 ^ (bit_length x - 1)" by (intro le_imp_power_dvd) simp
    with p have "2 ^ (bit_length x - 1) \<le> (x div ?u) * ?u" by (intro below_multiple) simp_all
    with t1 show ?thesis by simp
  qed
  also have "\<dots> \<le> to_double x" using x by (rule to_double_ge_floor)
  finally show ?thesis .
qed

lemma div_less_bound:
  fixes x u c :: int
  assumes "0 < u" and "x < c * u"
  shows "x div u < c"
proof (rule ccontr)
  assume "\<not> x div u < c"
  then have "c \<le> x div u" by simp
  then have "c * u \<le> (x div u) * u" using assms(1) by (simp add: mult_right_mono)
  moreover have "x = (x div u) * u + x mod u" by simp
  moreover have "0 \<le> x mod u" using assms(1) by simp
  ultimately show False using assms(2) by linarith
qed

lemma to_double_nonneg:
  assumes "0 \<le> x"
  shows "0 \<le> to_double x"
proof (cases "x = 0")
  case True
  then show ?thesis by (simp add: to_double_def Let_def)
next
  case False
  with assms have x: "0 < x" by simp
  then have "0 \<le> (x div 2 ^ (bit_length x - 53)) * 2 ^ (bit_length x - 53)"
    by (simp add: pos_imp_zdiv_nonneg_iff)
  also have "\<dots> \<le> to_double x" using x by (rule to_double_ge_floor)
  finally show ?thesis .
qed

lemma is_double_to_double:
  assumes "0 \<le> x"
  shows "is_double (to_double x)"
proof (cases "x = 0")
  case True
  then show ?thesis by (simp add: to_double_def is_double_def Let_def)
next
  case False
  with assms have x: "0 < x" by simp
  let ?k = "bit_length x - 53"
  let ?u = "(2::int) ^ ?k"
  define m where "m = (if ?u < 2 * (x mod ?u) \<or> (?u = 2 * (x mod ?u) \<and> odd (x div ?u))
                       then x div ?u + 1 else x div ?u)"
  have r: "to_double x = m * ?u" using x by (simp add: to_double_def Let_def m_def)
  have "x < 2 ^ bit_length x" by (rule bit_length_less)
  also have "(2::int) ^ bit_length x \<le> 2 ^ (53 + ?k)" by (intro power_increasing) simp_all
  also have "\<dots> = 2 ^ 53 * ?u" by (simp add: power_add)
  finally have "x div ?u < 2 ^ 53" by (intro div_less_bound) simp_all
  then have m_le: "m \<le> 2 ^ 53" by (simp add: m_def)
  have m0: "0 \<le> m" using x by (simp add: m_def pos_imp_zdiv_nonneg_iff)
  have mu0: "0 \<le> m * ?u" using m0 by simp
  show ?thesis
  proof (cases "m < 2 ^ 53")
    case True
    then have "m * ?u < 2 ^ 53 * ?u" by simp
    also have "\<dots> = 2 ^ (53 + ?k)" by (simp add: power_add)
    finally have "bit_length (m * ?u) \<le> 53 + ?k" by (rule bit_length_le)
    then have "(2::int) ^ (bit_length (m * ?u) - 53) dvd ?u" by (intro le_imp_power_dvd) simp
    then have "2 ^ (bit_length (m * ?u) - 53) dvd m * ?u" by (rule dvd_mult)
    with mu0 show ?thesis by (simp add: is_double_def r)
  next
    case False
    with m_le have m: "m = 2 ^ 53" by simp
    have e: "m * ?u = 2 ^ (53 + ?k)" by (simp add: m power_add)
    have "(2::int) ^ (53 + ?k) < 2 ^ (54 + ?k)" by (intro power_strict_increasing) simp_all
    then have "bit_length (2 ^ (53 + ?k)) \<le> 54 + ?k" by (rule bit_length_le)
    then have "(2::int) ^ (bit_length (2 ^ (53 + ?k)) - 53) dvd 2 ^ (53 + ?k)"
      by (intro le_imp_power_dvd) simp
    then show ?thesis by (simp add: is_double_def r e)
  qed
qed

section \<open>The aggregator: additivity and the invariant of the totals\<close>

lemma map_of_put_new: "k \<notin> set (map fst s) \<Longrightarrow> map_of (put_new k v s) = (map_of s)(k \<mapsto> v)"
proof -
  assume n: "k \<notin> set (map fst s)"
  have g: "map_of (xs @ [(k, v)] @ ys) = (map_of (xs @ ys))(k \<mapsto> v)"
    if "k \<notin> set (map fst xs)" for xs ys :: stats
    using that by (induction xs) auto
  show ?thesis
  proof (cases "index_of k")
    case None
    with g[of s "[]"] n show ?thesis by (simp add: put_new_def)
  next
    case (Some i)
    have "k \<notin> set (map fst (takeWhile (sorts_before i) s))"
      using n by (auto dest: set_takeWhileD)
    from g[OF this, of "dropWhile (sorts_before i) s"] Some show ?thesis
      by (simp add: put_new_def)
  qed
qed

lemma or_zero_total: "or_zero (map_of s k) = total s k"
  by (simp add: or_zero_def total_def split: option.split)

lemma total_add_gain_other: "k \<noteq> fst kg \<Longrightarrow> total (add_gain kg s) k = total s k"
  by (simp add: add_gain_def Let_def total_def AList.update_conv' map_of_put_new)

lemma total_add_gain_same:
  "fst kg \<noteq> ''__proto__'' \<Longrightarrow>
   total (add_gain kg s) (fst kg) = js_add (total s (fst kg)) (snd kg)"
  by (simp add: add_gain_def Let_def or_zero_total total_def[of "AList.update _ _ _"]
      total_def[of "put_new _ _ _"] AList.update_conv' map_of_put_new)

lemma total_fold_add_gain:
  "distinct (map fst g) \<Longrightarrow> ''__proto__'' \<notin> set (map fst g) \<Longrightarrow>
   total (fold add_gain g s) k =
     (case map_of g k of None \<Rightarrow> total s k | Some v \<Rightarrow> js_add (total s k) v)"
proof (induction g arbitrary: s)
  case Nil
  then show ?case by simp
next
  case (Cons kg g)
  from Cons.prems have d: "distinct (map fst g)" and p: "''__proto__'' \<notin> set (map fst g)"
    and plain: "fst kg \<noteq> ''__proto__''" and fresh: "fst kg \<notin> set (map fst g)"
    by auto
  have ih: "total (fold add_gain g (add_gain kg s)) k =
     (case map_of g k of None \<Rightarrow> total (add_gain kg s) k
      | Some v \<Rightarrow> js_add (total (add_gain kg s) k) v)"
    using d p by (rule Cons.IH)
  show ?case
  proof (cases "k = fst kg")
    case True
    with fresh have "map_of g k = None" by (simp add: map_of_eq_None_iff)
    moreover have "total (add_gain kg s) k = js_add (total s k) (snd kg)"
      using total_add_gain_same[OF plain, of s] True by simp
    moreover have "map_of (kg # g) k = Some (snd kg)" using True by (cases kg) simp
    ultimately show ?thesis using ih by simp
  next
    case False
    then have "total (add_gain kg s) k = total s k" by (rule total_add_gain_other)
    moreover have "map_of (kg # g) k = map_of g k" using False by (cases kg) simp
    ultimately show ?thesis using ih by (simp split: option.split)
  qed
qed

lemma total_handleSaveEntry:
  "distinct (map fst (gains e)) \<Longrightarrow> ''__proto__'' \<notin> set (map fst (gains e)) \<Longrightarrow>
   total (snd (handleSaveEntry e st)) k =
     (case map_of (gains e) k of None \<Rightarrow> total (snd st) k
      | Some v \<Rightarrow> js_add (total (snd st) k) v)"
  by (simp add: handleSaveEntry_def total_fold_add_gain)

lemma five_keys_gain:
  "five_keys g \<Longrightarrow> k \<in> set stat_keys \<Longrightarrow> map_of g k = Some (total g k)"
proof -
  assume "five_keys g" and "k \<in> set stat_keys"
  then have "k \<in> fst ` set g" by (simp add: five_keys_def)
  then obtain v where "map_of g k = Some v" by (metis map_of_eq_None_iff not_Some_eq)
  then show ?thesis by (simp add: total_def)
qed

lemma five_keys_plain: "five_keys g \<Longrightarrow> ''__proto__'' \<notin> set (map fst g)"
  by (simp add: five_keys_def stat_keys_def)

lemma total_save_five:
  assumes "five_keys (gains e)" and "k \<in> set stat_keys"
  shows "total (snd (handleSaveEntry e st)) k = js_add (total (snd st) k) (total (gains e) k)"
proof -
  from assms(1) have d: "distinct (map fst (gains e))" by (simp add: five_keys_def)
  from assms(1) have p: "''__proto__'' \<notin> set (map fst (gains e))" by (rule five_keys_plain)
  from assms have "map_of (gains e) k = Some (total (gains e) k)" by (rule five_keys_gain)
  with total_handleSaveEntry[OF d p, of st k] show ?thesis by simp
qed

text \<open>
  Claim C4, as the code has it. For every starting totals and every two gains with
  exactly the five keys such that, for each of the five keys, the starting total plus
  the first gain and that sum plus the second gain are of magnitude at most \<open>2 ^ 53\<close>,
  saving an entry with the first gains and then an entry with the second gives, for
  each of the five keys, the starting total (0 for a missing key) plus the two gains.
\<close>

theorem save_twice_adds:
  assumes "five_keys (gains e1)" and "five_keys (gains e2)"
    and "\<forall>k \<in> set stat_keys. exact (total s k + total (gains e1) k)
           \<and> exact (total s k + total (gains e1) k + total (gains e2) k)"
  shows "\<forall>k \<in> set stat_keys.
           total (snd (handleSaveEntry e2 (handleSaveEntry e1 (es, s)))) k =
             total s k + total (gains e1) k + total (gains e2) k"
proof
  fix k assume k: "k \<in> set stat_keys"
  with assms(3) have x1: "exact (total s k + total (gains e1) k)"
    and x2: "exact (total s k + total (gains e1) k + total (gains e2) k)" by simp_all
  have "total (snd (handleSaveEntry e1 (es, s))) k = js_add (total s k) (total (gains e1) k)"
    using assms(1) k by (simp add: total_save_five)
  also have "\<dots> = total s k + total (gains e1) k"
    using x1 by (simp add: exact_def js_add_exact)
  finally have first: "total (snd (handleSaveEntry e1 (es, s))) k = total s k + total (gains e1) k" .
  have "total (snd (handleSaveEntry e2 (handleSaveEntry e1 (es, s)))) k =
          js_add (total s k + total (gains e1) k) (total (gains e2) k)"
    using assms(2) k by (simp add: total_save_five first)
  also have "\<dots> = total s k + total (gains e1) k + total (gains e2) k"
    using x2 by (simp add: exact_def js_add_exact)
  finally show "total (snd (handleSaveEntry e2 (handleSaveEntry e1 (es, s)))) k =
             total s k + total (gains e1) k + total (gains e2) k" .
qed

text \<open>
  The theorem at totals three below \<open>2 ^ 53\<close> and gains of one and two points: the sums
  reach the bound and are exact.
\<close>

lemma ex_one_two_keys: "five_keys (gains one_entry)" "five_keys (gains two_entry)"
  by (simp_all add: five_keys_def one_entry_def two_entry_def stat_keys_def)

lemma ex_near_edge_totals:
  "total near_edge_stats k = (if k = ''knowledge'' then 9007199254740989 else 0)"
  "total (gains one_entry) k = (if k = ''knowledge'' then 1 else 0)"
  "total (gains two_entry) k = (if k = ''knowledge'' then 2 else 0)"
  by (simp_all add: total_def near_edge_stats_def one_entry_def two_entry_def)

theorem save_twice_adds_witness:
  "five_keys (gains one_entry) \<and> five_keys (gains two_entry)
   \<and> exact (9007199254740989 + 1) \<and> exact (9007199254740989 + 1 + 2) \<and> exact (0 + 0 + 0)
   \<and> total (snd (handleSaveEntry two_entry (handleSaveEntry one_entry ([], near_edge_stats))))
        ''knowledge'' = 9007199254740989 + 1 + 2
   \<and> total (snd (handleSaveEntry two_entry (handleSaveEntry one_entry ([], near_edge_stats))))
        ''courage'' = 0 + 0 + 0"
proof -
  have h: "\<forall>k \<in> set stat_keys.
      exact (total near_edge_stats k + total (gains one_entry) k)
      \<and> exact (total near_edge_stats k + total (gains one_entry) k + total (gains two_entry) k)"
    by (simp add: ex_near_edge_totals exact_def)
  note t = save_twice_adds [OF ex_one_two_keys h, of "[]"]
  have k: "''knowledge'' \<in> set stat_keys" "''courage'' \<in> set stat_keys"
    by (simp_all add: stat_keys_def)
  have "total (snd (handleSaveEntry two_entry (handleSaveEntry one_entry ([], near_edge_stats))))
        ''knowledge'' = 9007199254740989 + 1 + 2"
    using t k(1) by (simp add: ex_near_edge_totals)
  moreover have "total (snd (handleSaveEntry two_entry (handleSaveEntry one_entry ([], near_edge_stats))))
        ''courage'' = 0 + 0 + 0"
    using t k(2) by (simp add: ex_near_edge_totals)
  ultimately show ?thesis using ex_one_two_keys by (simp add: exact_def)
qed

text \<open>
  Claim C4 as stated fails for large totals: the sums are sums of doubles. From the
  total \<open>2 ^ 53\<close>, a gain of one point is lost in the rounding and the gain of two points
  that follows gives \<open>2 ^ 53 + 2\<close>, one less than the starting total plus the two gains.
\<close>

lemma ex_edge_saved:
  "total (snd (handleSaveEntry one_entry ([], edge_stats))) ''knowledge'' = 9007199254740992"
  "total (snd (handleSaveEntry two_entry (handleSaveEntry one_entry ([], edge_stats))))
     ''knowledge'' = 9007199254740994"
  by code_simp+

lemma ex_edge_sum:
  "total edge_stats ''knowledge'' + total (gains one_entry) ''knowledge''
     + total (gains two_entry) ''knowledge'' = 9007199254740995"
  by (simp add: total_def edge_stats_def one_entry_def two_entry_def)

lemma ex_one_two_deltas: "gain_delta (gains one_entry)" "gain_delta (gains two_entry)"
  by (simp_all add: gain_delta_def ex_one_two_keys) (simp_all add: one_entry_def two_entry_def)

theorem large_totals_round:
  "five_keys edge_stats \<and> gain_delta (gains one_entry) \<and> gain_delta (gains two_entry)
   \<and> total edge_stats ''knowledge'' + total (gains one_entry) ''knowledge''
        + total (gains two_entry) ''knowledge'' = 9007199254740995
   \<and> total (snd (handleSaveEntry two_entry (handleSaveEntry one_entry ([], edge_stats))))
        ''knowledge'' = 9007199254740994"
proof -
  have "five_keys edge_stats" by (simp add: five_keys_def edge_stats_def stat_keys_def)
  then show ?thesis using ex_one_two_deltas ex_edge_sum ex_edge_saved(2) by blast
qed

lemma keys_add_gain:
  "fst kg \<in> set (map fst s) \<Longrightarrow> map fst (add_gain kg s) = map fst s"
  by (simp add: add_gain_def Let_def AList.update_keys)

lemma keys_fold_add_gain:
  "set (map fst g) \<subseteq> set (map fst s) \<Longrightarrow> map fst (fold add_gain g s) = map fst s"
proof (induction g arbitrary: s)
  case Nil
  then show ?case by simp
next
  case (Cons kg g)
  then have k: "map fst (add_gain kg s) = map fst s" by (simp add: keys_add_gain)
  from Cons.prems have "set (map fst g) \<subseteq> set (map fst (add_gain kg s))" by (simp add: k)
  then have "map fst (fold add_gain g (add_gain kg s)) = map fst (add_gain kg s)"
    by (rule Cons.IH)
  with k show ?case by simp
qed

lemma gain_delta_value:
  "gain_delta g \<Longrightarrow> map_of g k = Some v \<Longrightarrow> 0 \<le> v"
  by (auto simp: gain_delta_def list_all_iff dest!: map_of_SomeD)

lemma fold_add_gain_step:
  assumes s: "\<forall>k. 0 \<le> total s k \<and> is_double (total s k)" and g: "gain_delta g"
  shows "0 \<le> total (fold add_gain g s) k \<and> is_double (total (fold add_gain g s) k)
     \<and> total s k \<le> total (fold add_gain g s) k"
proof -
  from g have d: "distinct (map fst g)" by (simp add: gain_delta_def five_keys_def)
  from g have "five_keys g" by (simp add: gain_delta_def)
  then have p: "''__proto__'' \<notin> set (map fst g)" by (rule five_keys_plain)
  note t = total_fold_add_gain[OF d p, of s k]
  from s have t0: "0 \<le> total s k" and td: "is_double (total s k)" by simp_all
  show ?thesis
  proof (cases "map_of g k")
    case None
    with t t0 td show ?thesis by simp
  next
    case (Some v)
    with g have v: "0 \<le> v" by (rule gain_delta_value)
    from Some t have r: "total (fold add_gain g s) k = to_double (total s k + v)"
      by (simp add: js_add_def)
    from t0 v have sum: "0 \<le> total s k + v" by simp
    have "total s k \<le> to_double (total s k + v)"
      using t0 td by (rule to_double_above) (simp add: v)
    with sum show ?thesis by (simp add: r to_double_nonneg is_double_to_double)
  qed
qed

lemma saved_snoc: "saved (es @ [e]) = handleSaveEntry e (saved es)"
  by (simp add: saved_def)

lemma keys_handleSaveEntry:
  "five_keys (gains e) \<Longrightarrow> map fst (snd st) = stat_keys \<Longrightarrow>
   map fst (snd (handleSaveEntry e st)) = stat_keys"
proof -
  assume g: "five_keys (gains e)" and s: "map fst (snd st) = stat_keys"
  then have "set (map fst (gains e)) \<subseteq> set (map fst (snd st))" by (simp add: five_keys_def)
  then have "map fst (fold add_gain (gains e) (snd st)) = map fst (snd st)"
    by (rule keys_fold_add_gain)
  with s show ?thesis by (simp add: handleSaveEntry_def)
qed

lemma keys_saved:
  "list_all (\<lambda>e. gain_delta (gains e)) es \<Longrightarrow> map fst (snd (saved es)) = stat_keys"
proof (induction es rule: rev_induct)
  case Nil
  then show ?case by (simp add: saved_def initial_stats_def stat_keys_def)
next
  case (snoc e es)
  then show ?case by (simp add: saved_snoc keys_handleSaveEntry gain_delta_def)
qed

lemma doubles_saved:
  "list_all (\<lambda>e. gain_delta (gains e)) es \<Longrightarrow>
   \<forall>k. 0 \<le> total (snd (saved es)) k \<and> is_double (total (snd (saved es)) k)"
proof (induction es rule: rev_induct)
  case Nil
  have "total initial_stats k = 0" for k by (simp add: total_def initial_stats_def)
  then show ?case by (simp add: saved_def is_double_def)
next
  case (snoc e es)
  then have ih: "\<forall>k. 0 \<le> total (snd (saved es)) k \<and> is_double (total (snd (saved es)) k)"
    and g: "gain_delta (gains e)" by simp_all
  show ?case
    using fold_add_gain_step[OF ih g] by (simp add: saved_snoc handleSaveEntry_def)
qed

lemma five_keys_stat_keys: "map fst s = stat_keys \<Longrightarrow> five_keys s"
  by (simp add: five_keys_def stat_keys_def)

text \<open>
  Claim C8, as the code has it. The totals reached from the all-zero state by saving
  entries whose gains are gain deltas of the data model (exactly the five keys, each
  value from 0 to 5) have exactly the five keys, in the order of the first run, and
  saving one more such entry decreases the total of no key.
\<close>

theorem saved_stats_invariant:
  assumes "list_all (\<lambda>e. gain_delta (gains e)) es"
  shows "five_keys (snd (saved es)) \<and> map fst (snd (saved es)) = stat_keys
    \<and> (\<forall>e k. gain_delta (gains e) \<longrightarrow>
           total (snd (saved es)) k \<le> total (snd (handleSaveEntry e (saved es))) k)"
proof (intro conjI allI impI)
  show k: "map fst (snd (saved es)) = stat_keys" using assms by (rule keys_saved)
  then show "five_keys (snd (saved es))" by (rule five_keys_stat_keys)
next
  fix e :: "stats entry" and k
  assume g: "gain_delta (gains e)"
  from assms have "\<forall>k. 0 \<le> total (snd (saved es)) k \<and> is_double (total (snd (saved es)) k)"
    by (rule doubles_saved)
  from fold_add_gain_step[OF this g, of k]
  show "total (snd (saved es)) k \<le> total (snd (handleSaveEntry e (saved es))) k"
    by (simp add: handleSaveEntry_def)
qed

text \<open>The theorem at the spec's example entry, followed by a second entry.\<close>

lemma ex_book_keys: "five_keys (gains book_entry)" "five_keys (gains talk_entry)"
  by (simp_all add: five_keys_def book_entry_def talk_entry_def stat_keys_def)

lemma ex_gain_deltas: "gain_delta (gains book_entry)" "gain_delta (gains talk_entry)"
  by (simp_all add: gain_delta_def ex_book_keys) (simp_all add: book_entry_def talk_entry_def)

theorem saved_stats_invariant_witness:
  "list_all (\<lambda>e. gain_delta (gains e)) [book_entry]
   \<and> five_keys (snd (saved [book_entry]))
   \<and> map fst (snd (saved [book_entry])) = stat_keys
   \<and> gain_delta (gains talk_entry)
   \<and> total (snd (saved [book_entry])) ''courage''
        \<le> total (snd (handleSaveEntry talk_entry (saved [book_entry]))) ''courage''"
proof -
  have h: "list_all (\<lambda>e. gain_delta (gains e)) [book_entry]" by (simp add: ex_gain_deltas)
  show ?thesis using h saved_stats_invariant [OF h] ex_gain_deltas(2) by blast
qed

text \<open>
  Claim C8 as stated fails: the aggregator adds whatever gains the entry carries, and
  the estimator passes on what the service answered. An entry with a sixth key leaves
  six keys in the totals, and an entry with a negative gain decreases a total.
\<close>

lemma ex_luck_keys: "map fst (snd (handleSaveEntry luck_entry (saved []))) = stat_keys @ [''luck'']"
  by code_simp

lemma ex_book_total: "total (snd (saved [book_entry])) ''knowledge'' = 4"
  by code_simp

lemma ex_slip_total: "total (snd (handleSaveEntry slip_entry (saved [book_entry]))) ''knowledge'' = 3"
  by code_simp

lemma ex_luck_six: "\<not> five_keys (snd (handleSaveEntry luck_entry (saved [])))"
proof
  assume "five_keys (snd (handleSaveEntry luck_entry (saved [])))"
  then have "set (map fst (snd (handleSaveEntry luck_entry (saved [])))) = set stat_keys"
    by (simp add: five_keys_def)
  then have "''luck'' \<in> set stat_keys" unfolding ex_luck_keys by auto
  then show False by (simp add: stat_keys_def)
qed

theorem stats_invariant_needs_valid_gains:
  "map fst (snd (handleSaveEntry luck_entry (saved []))) = stat_keys @ [''luck'']
   \<and> \<not> five_keys (snd (handleSaveEntry luck_entry (saved [])))
   \<and> total (snd (saved [book_entry])) ''knowledge'' = 4
   \<and> total (snd (handleSaveEntry slip_entry (saved [book_entry]))) ''knowledge'' = 3"
  using ex_luck_keys ex_luck_six ex_book_total ex_slip_total by blast

section \<open>The entries of a date\<close>

lemma mset_insort_cmp: "mset (insort_cmp cmp x ys) = add_mset x (mset ys)"
  by (induction ys) auto

lemma mset_sort_cmp: "mset (sort_cmp cmp xs) = mset xs"
  by (induction xs) (auto simp: sort_cmp_def mset_insort_cmp)

lemma sort_cmp_Cons: "sort_cmp cmp (x # xs) = insort_cmp cmp x (sort_cmp cmp xs)"
  by (simp add: sort_cmp_def)

lemma insort_cmp_front:
  "(\<forall>y \<in> set ys. cmp x y \<le> 0) \<Longrightarrow> insort_cmp cmp x ys = x # ys"
  by (cases ys) auto

lemma sort_cmp_all_equal:
  "(\<forall>x \<in> set xs. \<forall>y \<in> set xs. cmp x y \<le> 0) \<Longrightarrow> sort_cmp cmp xs = xs"
proof (induction xs)
  case Nil
  then show ?case by (simp add: sort_cmp_def)
next
  case (Cons x xs)
  then have "sort_cmp cmp xs = xs" by simp
  moreover have "insort_cmp cmp x xs = x # xs" using Cons.prems by (intro insort_cmp_front) simp
  ultimately show ?case by (simp add: sort_cmp_Cons)
qed

lemma set_insort_cmp: "set (insort_cmp cmp x ys) = insert x (set ys)"
  by (induction ys) auto

lemma sorted_insort_cmp:
  assumes key: "\<And>a b. a \<in> S \<Longrightarrow> b \<in> S \<Longrightarrow> (cmp a b \<le> 0) = (key b \<le> key a)"
    and x: "x \<in> S"
  shows "set ys \<subseteq> S \<Longrightarrow> sorted_wrt (\<lambda>a b. key b \<le> key a) ys \<Longrightarrow>
         sorted_wrt (\<lambda>a b. key b \<le> (key a :: int)) (insort_cmp cmp x ys)"
proof (induction ys)
  case Nil
  then show ?case by simp
next
  case (Cons y ys)
  then have y: "y \<in> S" by simp
  show ?case
  proof (cases "cmp x y \<le> 0")
    case True
    then have "key y \<le> key x" using key[OF x y] by simp
    with Cons.prems show ?thesis using True by (auto intro: order_trans)
  next
    case False
    then have "key x \<le> key y" using key[OF x y] by simp
    with Cons show ?thesis using False by (auto simp: set_insort_cmp)
  qed
qed

lemma set_sort_cmp: "set (sort_cmp cmp xs) = set xs"
  by (metis mset_sort_cmp set_mset_mset)

lemma sorted_sort_cmp:
  assumes key: "\<And>a b. a \<in> set xs \<Longrightarrow> b \<in> set xs \<Longrightarrow> (cmp a b \<le> 0) = (key b \<le> key a)"
  shows "sorted_wrt (\<lambda>a b. key b \<le> (key a :: int)) (sort_cmp cmp xs)"
  using key
proof (induction xs)
  case Nil
  then show ?case by (simp add: sort_cmp_def)
next
  case (Cons x xs)
  have "sorted_wrt (\<lambda>a b. key b \<le> key a) (sort_cmp cmp xs)"
    using Cons.prems by (intro Cons.IH) simp_all
  then have "sorted_wrt (\<lambda>a b. key b \<le> key a) (insort_cmp cmp x (sort_cmp cmp xs))"
    using Cons.prems
    by (intro sorted_insort_cmp[where S = "set (x # xs)"]) (simp_all add: set_sort_cmp subset_insertI)
  then show ?case by (simp add: sort_cmp_Cons)
qed

text \<open>
  The entries selected are exactly the entries of the date, each as often as in the
  list, and none when no date matches.
\<close>

lemma selectedDateEntries_filter:
  "mset (selectedDateEntries D es d) = mset (filter (\<lambda>e. date e = d) es)"
  "set (selectedDateEntries D es d) = {e \<in> set es. date e = d}"
  by (simp_all add: selectedDateEntries_def mset_sort_cmp set_sort_cmp)

lemma selectedDateEntries_none:
  assumes "\<forall>e \<in> set es. date e \<noteq> d"
  shows "selectedDateEntries D es d = []"
proof -
  from assms have "filter (\<lambda>e. date e = d) es = []" by (simp add: filter_empty_conv)
  then show ?thesis by (simp add: selectedDateEntries_def sort_cmp_def)
qed

text \<open>
  What the comparison is written for: when the runtime reads the id of every entry of
  the date as a valid date, the entries are ordered by that time value, latest first.
\<close>

lemma selectedDateEntries_valid_dates:
  assumes v: "\<forall>e \<in> set es. date e = d \<longrightarrow> D (id_entry e) \<noteq> None"
  shows "sorted_wrt (\<lambda>a b. entry_time D b \<le> entry_time D a) (selectedDateEntries D es d)"
  unfolding selectedDateEntries_def
proof (rule sorted_sort_cmp)
  fix a b
  assume "a \<in> set (filter (\<lambda>e. date e = d) es)" and "b \<in> set (filter (\<lambda>e. date e = d) es)"
  with v have "D (id_entry a) \<noteq> None" and "D (id_entry b) \<noteq> None" by simp_all
  then obtain ta tb where "D (id_entry a) = Some ta" and "D (id_entry b) = Some tb" by blast
  then show "(by_id_date D a b \<le> 0) = (entry_time D b \<le> entry_time D a)"
    by (simp add: by_id_date_def entry_time_def)
qed

text \<open>
  What it does on the ids the form makes: when the runtime reads no id of the entries
  of the date as a date, every comparison is 0 and the entries stay in the order of the
  list, the oldest first.
\<close>

lemma selectedDateEntries_no_dates:
  assumes n: "\<forall>e \<in> set es. date e = d \<longrightarrow> D (id_entry e) = None"
  shows "selectedDateEntries D es d = filter (\<lambda>e. date e = d) es"
  unfolding selectedDateEntries_def
proof (rule sort_cmp_all_equal, intro ballI)
  fix x y
  assume "x \<in> set (filter (\<lambda>e. date e = d) es)"
  with n have "D (id_entry x) = None" by simp
  then show "by_id_date D x y \<le> 0" by (simp add: by_id_date_def split: option.split)
qed

lemma ex_app_ids:
  "id_entry book_entry = ''2025-01-02T10:00:00.000Z'' @ ''0.25''"
  "id_entry talk_entry = ''2025-01-02T18:30:00.000Z'' @ ''0.75''"
  "table_date example_dates (id_entry book_entry) = None"
  "table_date example_dates (id_entry talk_entry) = None"
  "date book_entry = ''2025-01-02''" "date talk_entry = ''2025-01-02''"
  by (simp_all add: table_date_def example_dates_def book_entry_def talk_entry_def)

lemma ex_app_id_order: "id_entry book_entry < id_entry talk_entry"
  by (simp add: book_entry_def talk_entry_def less_char_def)

text \<open>
  Claim C7 fails on the code. The entries that the form saves have the ids of line 263,
  an ISO text followed by the text of \<^verbatim>\<open>Math.random()\<close>, and the runtime reads no
  such id as a date. For two entries of one day, saved at 10:00 and at 18:30, the
  entries selected are the two entries, in the order of the list: the smaller id
  first, and not the larger id first as the claim has it and as the sort by
  submission time of line 389 is written to give.
\<close>

theorem app_entries_stay_in_list_order:
  "id_entry book_entry = ''2025-01-02T10:00:00.000Z'' @ ''0.25''
   \<and> id_entry talk_entry = ''2025-01-02T18:30:00.000Z'' @ ''0.75''
   \<and> table_date example_dates (id_entry book_entry) = None
   \<and> table_date example_dates (id_entry talk_entry) = None
   \<and> selectedDateEntries (table_date example_dates) [book_entry, talk_entry] ''2025-01-02'' =
        [book_entry, talk_entry]
   \<and> id_entry book_entry < id_entry talk_entry
   \<and> \<not> sorted_wrt (\<lambda>x y. id_entry y \<le> id_entry x)
         (selectedDateEntries (table_date example_dates) [book_entry, talk_entry] ''2025-01-02'')"
proof -
  have "\<forall>e \<in> set [book_entry, talk_entry].
          date e = ''2025-01-02'' \<longrightarrow> table_date example_dates (id_entry e) = None"
    by (simp add: ex_app_ids(3-6))
  then have "selectedDateEntries (table_date example_dates) [book_entry, talk_entry] ''2025-01-02'' =
        filter (\<lambda>e. date e = ''2025-01-02'') [book_entry, talk_entry]"
    by (rule selectedDateEntries_no_dates)
  then have r: "selectedDateEntries (table_date example_dates) [book_entry, talk_entry] ''2025-01-02'' =
        [book_entry, talk_entry]"
    by (simp add: ex_app_ids(5-6))
  have ns: "\<not> sorted_wrt (\<lambda>x y. id_entry y \<le> id_entry x)
         (selectedDateEntries (table_date example_dates) [book_entry, talk_entry] ''2025-01-02'')"
    using ex_app_id_order by (simp add: r not_le)
  show ?thesis using ex_app_ids(1-4) r ex_app_id_order ns by blast
qed

section \<open>Export and import\<close>

lemma shape_valid_state_json: "shape_valid (state_json st)"
  by (simp add: shape_valid_def state_json_def stats_json_def)

lemma shape_valid_truthy: "shape_valid st \<Longrightarrow> truthy (allEntries st) \<and> truthy (playerStats st)"
  by (auto simp: shape_valid_def split: json.splits)

lemma import_text_accepts:
  "P (Str text) = Some (Obj kvs) \<Longrightarrow> map_of kvs ''allEntries'' = Some es \<Longrightarrow>
   map_of kvs ''playerStats'' = Some ps \<Longrightarrow> truthy es \<Longrightarrow> truthy ps \<Longrightarrow>
   import_text P text st = (\<lparr>allEntries = es, playerStats = ps\<rparr>, ImportDone)"
  by (simp add: import_text_def)

lemma import_text_rejects_falsy:
  "P (Str text) = Some (Obj kvs) \<Longrightarrow> map_of kvs ''allEntries'' = Some es \<Longrightarrow>
   map_of kvs ''playerStats'' = Some ps \<Longrightarrow> \<not> truthy es \<or> \<not> truthy ps \<Longrightarrow>
   import_text P text st = (st, ImportFailed InvalidFileFormat)"
  by (auto simp add: import_text_def)

lemma import_text_unparsable:
  "P (Str text) = None \<Longrightarrow> import_text P text st = (st, ImportFailed SyntaxError)"
  by (simp add: import_text_def)

lemma import_text_missing_key:
  "P (Str text) = Some (Obj kvs) \<Longrightarrow>
   \<not> has_key (Obj kvs) ''playerStats'' \<or> \<not> has_key (Obj kvs) ''allEntries'' \<Longrightarrow>
   import_text P text st = (st, ImportFailed InvalidFileFormat)"
  by (auto simp add: import_text_def has_key_def map_of_eq_None_iff[THEN iffD2]
      split: option.split)

lemma import_text_no_object:
  "P (Str text) = Some data \<Longrightarrow> \<not> has_key data ''playerStats'' \<or> \<not> has_key data ''allEntries'' \<Longrightarrow>
   fst (import_text P text st) = st \<and> (\<exists>e. snd (import_text P text st) = ImportFailed e)"
proof (cases data)
  case (Obj kvs)
  assume "P (Str text) = Some data" "\<not> has_key data ''playerStats'' \<or> \<not> has_key data ''allEntries''"
  with Obj show ?thesis by (simp add: import_text_missing_key)
qed (simp_all add: import_text_def)

text \<open>
  Claim C5. For every state of the valid shape (the entries an array, the totals an
  object), given a runtime whose parser reads the printed export document back as that
  document, and a file write that succeeds: the export writes the document's text, and
  importing that text, whatever the state then is, puts back exactly the entries and
  the totals of the exported state.
\<close>

theorem export_import_round_trip:
  assumes "shape_valid st"
    and "P (Str (S (export_document now1 st))) = Some (export_document now1 st)"
    and "writeFile (export_name now2) (export_text S now1 st) fs = Inr fs'"
  shows "handleExport S writeFile now1 now2 st fs = (ExportDone (export_name now2), fs')
     \<and> handleImport P (Readable (export_text S now1 st)) st' = (st, Some ImportDone)"
proof
  show "handleExport S writeFile now1 now2 st fs = (ExportDone (export_name now2), fs')"
    using assms(3) by (simp add: handleExport_def Let_def)
  have t: "truthy (allEntries st)" "truthy (playerStats st)"
    using assms(1) by (simp_all add: shape_valid_truthy)
  have p: "P (Str (export_text S now1 st)) =
      Some (Obj [(''allEntries'', allEntries st), (''playerStats'', playerStats st),
                 (''exportDate'', Str now1)])"
    using assms(2) by (simp add: export_text_def export_document_def)
  have "import_text P (export_text S now1 st) st' =
          (\<lparr>allEntries = allEntries st, playerStats = playerStats st\<rparr>, ImportDone)"
    using p t
      import_text_accepts [of P "export_text S now1 st"
        "[(''allEntries'', allEntries st), (''playerStats'', playerStats st),
          (''exportDate'', Str now1)]" "allEntries st" "playerStats st" "st'"]
    by simp
  then show "handleImport P (Readable (export_text S now1 st)) st' = (st, Some ImportDone)"
    by (simp add: handleImport_def Let_def)
qed

text \<open>
  The theorem at the state after the spec's example entry, exported and then imported
  on a first-run state.
\<close>

lemma ex_document:
  "export_document ''2025-01-03T09:00:00.000Z'' example_state = example_document"
  by code_simp

lemma ex_parse_export: "table_parse example_texts (Str example_export_text) = Some example_document"
  by (simp add: table_parse_def example_texts_def)

lemma ex_other_texts:
  "table_parse example_texts (Str broken_text) = None"
  "table_parse example_texts (Str null_text) = Some Null"
  "table_parse example_texts (Str no_stats_text) = Some (Obj [(''allEntries'', Arr [])])"
  "table_parse example_texts (Str null_entries_text) =
     Some (Obj [(''allEntries'', Null), (''playerStats'', Obj [])])"
  "table_parse example_texts (Str odd_values_text) =
     Some (Obj [(''allEntries'', Num 5), (''playerStats'', Str ''x'')])"
  by code_simp+

lemma ex_print_export: "table_print example_prints example_document = example_export_text"
  by (simp add: table_print_def example_prints_def)

lemma ex_shape: "shape_valid example_state"
  by (simp add: example_state_def shape_valid_state_json)

lemma ex_name: "export_name ''2025-01-03T09:00:00.002Z'' = ''persona_data_2025-01-03.json''"
  by code_simp

theorem export_import_round_trip_witness:
  "shape_valid example_state
   \<and> table_parse example_texts
        (Str (table_print example_prints
               (export_document ''2025-01-03T09:00:00.000Z'' example_state))) =
        Some (export_document ''2025-01-03T09:00:00.000Z'' example_state)
   \<and> handleExport (table_print example_prints) write_ok ''2025-01-03T09:00:00.000Z''
        ''2025-01-03T09:00:00.002Z'' example_state [] =
        (ExportDone ''persona_data_2025-01-03.json'',
         [(''persona_data_2025-01-03.json'', example_export_text)])
   \<and> handleImport (table_parse example_texts) (Readable example_export_text) first_run_state =
        (example_state, Some ImportDone)"
proof -
  have p: "table_parse example_texts
        (Str (table_print example_prints
               (export_document ''2025-01-03T09:00:00.000Z'' example_state))) =
        Some (export_document ''2025-01-03T09:00:00.000Z'' example_state)"
    by (simp add: ex_print_export ex_parse_export ex_document)
  have w: "write_ok (export_name ''2025-01-03T09:00:00.002Z'')
        (export_text (table_print example_prints) ''2025-01-03T09:00:00.000Z'' example_state) [] =
        Inr [(''persona_data_2025-01-03.json'', example_export_text)]"
    by (simp add: write_ok_def ex_name export_text_def ex_document ex_print_export)
  show ?thesis
    using export_import_round_trip [where P = "table_parse example_texts"
        and S = "table_print example_prints" and st = example_state
        and writeFile = write_ok and ?now1.0 = "''2025-01-03T09:00:00.000Z''"
        and ?now2.0 = "''2025-01-03T09:00:00.002Z''" and fs = "[]"
        and fs' = "[(''persona_data_2025-01-03.json'', example_export_text)]"
        and st' = first_run_state, OF ex_shape p w] ex_shape p
    by (simp add: ex_name export_text_def ex_document ex_print_export)
qed

text \<open>
  Claim C6. For every current state and every imported text that is not JSON, or whose
  document lacks the key \<^verbatim>\<open>playerStats\<close> or the key \<^verbatim>\<open>allEntries\<close>, the import leaves
  the state as it is and reports a failure: the syntax error for a text that is not
  JSON, and the invalid-format error for an object that lacks a key.
\<close>

theorem import_failure_keeps_state:
  "(P (Str text) = None
      \<longrightarrow> handleImport P (Readable text) st = (st, Some (ImportFailed SyntaxError)))
   \<and> (P (Str text) = Some data
        \<and> (\<not> has_key data ''playerStats'' \<or> \<not> has_key data ''allEntries'')
      \<longrightarrow> fst (handleImport P (Readable text) st) = st
          \<and> (\<exists>e. snd (handleImport P (Readable text) st) = Some (ImportFailed e)))
   \<and> (P (Str text) = Some (Obj kvs)
        \<and> (\<not> has_key (Obj kvs) ''playerStats'' \<or> \<not> has_key (Obj kvs) ''allEntries'')
      \<longrightarrow> handleImport P (Readable text) st = (st, Some (ImportFailed InvalidFileFormat)))"
proof (intro conjI impI)
  assume "P (Str text) = None"
  then show "handleImport P (Readable text) st = (st, Some (ImportFailed SyntaxError))"
    by (simp add: handleImport_def Let_def import_text_unparsable)
next
  assume a: "P (Str text) = Some data
        \<and> (\<not> has_key data ''playerStats'' \<or> \<not> has_key data ''allEntries'')"
  then have r: "fst (import_text P text st) = st \<and> (\<exists>e. snd (import_text P text st) = ImportFailed e)"
    using import_text_no_object by blast
  from r show "fst (handleImport P (Readable text) st) = st"
    by (simp add: handleImport_def Let_def)
  from r show "\<exists>e. snd (handleImport P (Readable text) st) = Some (ImportFailed e)"
    by (simp add: handleImport_def Let_def)
next
  assume "P (Str text) = Some (Obj kvs)
        \<and> (\<not> has_key (Obj kvs) ''playerStats'' \<or> \<not> has_key (Obj kvs) ''allEntries'')"
  then have "import_text P text st = (st, ImportFailed InvalidFileFormat)"
    using import_text_missing_key by blast
  then show "handleImport P (Readable text) st = (st, Some (ImportFailed InvalidFileFormat))"
    by (simp add: handleImport_def Let_def)
qed

text \<open>The theorem at a broken text, at \<^verbatim>\<open>null\<close> and at a document without totals.\<close>

theorem import_failure_keeps_state_witness:
  "table_parse example_texts (Str broken_text) = None
   \<and> handleImport (table_parse example_texts) (Readable broken_text) example_state =
        (example_state, Some (ImportFailed SyntaxError))
   \<and> table_parse example_texts (Str null_text) = Some Null
   \<and> \<not> has_key Null ''playerStats''
   \<and> fst (handleImport (table_parse example_texts) (Readable null_text) example_state) =
        example_state
   \<and> (\<exists>e. snd (handleImport (table_parse example_texts) (Readable null_text) example_state) =
          Some (ImportFailed e))
   \<and> table_parse example_texts (Str no_stats_text) = Some (Obj [(''allEntries'', Arr [])])
   \<and> \<not> has_key (Obj [(''allEntries'', Arr [])]) ''playerStats''
   \<and> handleImport (table_parse example_texts) (Readable no_stats_text) example_state =
        (example_state, Some (ImportFailed InvalidFileFormat))"
proof -
  have k: "\<not> has_key Null ''playerStats''" "\<not> has_key (Obj [(''allEntries'', Arr [])]) ''playerStats''"
    by (simp_all add: has_key_def)
  note a = import_failure_keeps_state [where P = "table_parse example_texts" and st = example_state]
  show ?thesis
    using a [of broken_text] a [of null_text Null] a [of no_stats_text _ "[(''allEntries'', Arr [])]"]
      ex_other_texts k
    by simp
qed

text \<open>
  Claim C10. The import tests the truthiness of the two values. A document with both
  keys of which one value is falsy (\<^verbatim>\<open>null\<close>, 0, \<^verbatim>\<open>false\<close>, the empty text) is
  rejected with the invalid-format error and the state stays. A document whose two
  values are truthy replaces the state by these two values, whatever they are.
\<close>

theorem import_tests_truthiness:
  "(P (Str text) = Some (Obj kvs) \<and> map_of kvs ''allEntries'' = Some es
        \<and> map_of kvs ''playerStats'' = Some ps \<and> (\<not> truthy es \<or> \<not> truthy ps)
      \<longrightarrow> handleImport P (Readable text) st = (st, Some (ImportFailed InvalidFileFormat)))
   \<and> (P (Str text) = Some (Obj kvs) \<and> map_of kvs ''allEntries'' = Some es
        \<and> map_of kvs ''playerStats'' = Some ps \<and> truthy es \<and> truthy ps
      \<longrightarrow> handleImport P (Readable text) st =
            (\<lparr>allEntries = es, playerStats = ps\<rparr>, Some ImportDone))
   \<and> \<not> truthy Null \<and> \<not> truthy (Num 0) \<and> \<not> truthy (Bool False) \<and> \<not> truthy (Str [])"
proof (intro conjI impI)
  assume "P (Str text) = Some (Obj kvs) \<and> map_of kvs ''allEntries'' = Some es
        \<and> map_of kvs ''playerStats'' = Some ps \<and> (\<not> truthy es \<or> \<not> truthy ps)"
  then have "import_text P text st = (st, ImportFailed InvalidFileFormat)"
    using import_text_rejects_falsy by blast
  then show "handleImport P (Readable text) st = (st, Some (ImportFailed InvalidFileFormat))"
    by (simp add: handleImport_def Let_def)
next
  assume "P (Str text) = Some (Obj kvs) \<and> map_of kvs ''allEntries'' = Some es
        \<and> map_of kvs ''playerStats'' = Some ps \<and> truthy es \<and> truthy ps"
  then have "import_text P text st = (\<lparr>allEntries = es, playerStats = ps\<rparr>, ImportDone)"
    using import_text_accepts by blast
  then show "handleImport P (Readable text) st = (\<lparr>allEntries = es, playerStats = ps\<rparr>, Some ImportDone)"
    by (simp add: handleImport_def Let_def)
qed simp_all

text \<open>
  The theorem at a document whose entries are \<^verbatim>\<open>null\<close>, and at one whose values are
  a number and a text.
\<close>

theorem import_tests_truthiness_witness:
  "table_parse example_texts (Str null_entries_text) =
        Some (Obj [(''allEntries'', Null), (''playerStats'', Obj [])])
   \<and> \<not> truthy Null
   \<and> handleImport (table_parse example_texts) (Readable null_entries_text) example_state =
        (example_state, Some (ImportFailed InvalidFileFormat))
   \<and> table_parse example_texts (Str odd_values_text) =
        Some (Obj [(''allEntries'', Num 5), (''playerStats'', Str ''x'')])
   \<and> truthy (Num 5) \<and> truthy (Str ''x'')
   \<and> handleImport (table_parse example_texts) (Readable odd_values_text) example_state =
        (\<lparr>allEntries = Num 5, playerStats = Str ''x''\<rparr>, Some ImportDone)"
proof -
  note a = import_tests_truthiness [where P = "table_parse example_texts" and st = example_state]
  show ?thesis
    using a [of null_entries_text "[(''allEntries'', Null), (''playerStats'', Obj [])]" Null "Obj []"]
      a [of odd_values_text "[(''allEntries'', Num 5), (''playerStats'', Str ''x'')]" "Num 5" "Str ''x''"]
      ex_other_texts
    by simp
qed

end
